theory Spec2Isabelle
  imports Complex_Main
begin

section \<open>Python and NumPy numbers\<close>

text \<open>
  The calculators work on Python floats and NumPy \<open>float64\<close> scalars. A finite double is
  taken as the real number it denotes and arithmetic on finite values is exact (rounding,
  overflow and underflow are not modelled). What is modelled is everything the error handling
  of the code depends on: the special values (signed zero, the infinities, NaN) with their
  IEEE-754 arithmetic, and the difference between a Python float, whose division by zero
  raises \<open>ZeroDivisionError\<close>, and a NumPy scalar, whose division by zero returns an
  infinity or NaN. An operation with at least one NumPy operand is a NumPy operation and
  returns a NumPy scalar.
\<close>

datatype py_exn = ZeroDivisionError | KeyError | TypeError

text \<open>\<open>Fin 0\<close> is \<open>+0.0\<close>; \<open>NegZero\<close> is \<open>-0.0\<close>.\<close>

datatype fl = Fin real | NegZero | PInf | NInf | NaN

fun is_nan :: "fl \<Rightarrow> bool" where
  "is_nan NaN = True"
| "is_nan _ = False"

fun is_inf :: "fl \<Rightarrow> bool" where
  "is_inf PInf = True"
| "is_inf NInf = True"
| "is_inf _ = False"

fun is_zero :: "fl \<Rightarrow> bool" where
  "is_zero (Fin r) = (r = 0)"
| "is_zero NegZero = True"
| "is_zero _ = False"

fun sign_bit :: "fl \<Rightarrow> bool" where
  "sign_bit (Fin r) = (r < 0)"
| "sign_bit NegZero = True"
| "sign_bit NInf = True"
| "sign_bit _ = False"

text \<open>The real value of a finite double (0 for the others, where it is not used).\<close>

fun mag :: "fl \<Rightarrow> real" where
  "mag (Fin r) = r"
| "mag _ = 0"

fun to_real :: "fl \<Rightarrow> real option" where
  "to_real (Fin r) = Some r"
| "to_real NegZero = Some 0"
| "to_real _ = None"

definition zero_of :: "bool \<Rightarrow> fl" where
  "zero_of s = (if s then NegZero else Fin 0)"

definition inf_of :: "bool \<Rightarrow> fl" where
  "inf_of s = (if s then NInf else PInf)"

fun fl_neg :: "fl \<Rightarrow> fl" where
  "fl_neg (Fin r) = (if r = 0 then NegZero else Fin (- r))"
| "fl_neg NegZero = Fin 0"
| "fl_neg PInf = NInf"
| "fl_neg NInf = PInf"
| "fl_neg NaN = NaN"

fun fl_add :: "fl \<Rightarrow> fl \<Rightarrow> fl" where
  "fl_add NaN b = NaN"
| "fl_add a NaN = NaN"
| "fl_add PInf NInf = NaN"
| "fl_add NInf PInf = NaN"
| "fl_add PInf b = PInf"
| "fl_add a PInf = PInf"
| "fl_add NInf b = NInf"
| "fl_add a NInf = NInf"
| "fl_add NegZero NegZero = NegZero"
| "fl_add NegZero (Fin b) = Fin b"
| "fl_add (Fin a) NegZero = Fin a"
| "fl_add (Fin a) (Fin b) = Fin (a + b)"

definition fl_sub :: "fl \<Rightarrow> fl \<Rightarrow> fl" where
  "fl_sub a b = fl_add a (fl_neg b)"

definition fl_mul :: "fl \<Rightarrow> fl \<Rightarrow> fl" where
  "fl_mul a b =
     (let s = (sign_bit a \<noteq> sign_bit b) in
      if is_nan a \<or> is_nan b then NaN
      else if (is_inf a \<and> is_zero b) \<or> (is_zero a \<and> is_inf b) then NaN
      else if is_inf a \<or> is_inf b then inf_of s
      else if mag a * mag b = 0 then zero_of s
      else Fin (mag a * mag b))"

definition fl_div :: "fl \<Rightarrow> fl \<Rightarrow> fl" where
  "fl_div a b =
     (let s = (sign_bit a \<noteq> sign_bit b) in
      if is_nan a \<or> is_nan b then NaN
      else if (is_inf a \<and> is_inf b) \<or> (is_zero a \<and> is_zero b) then NaN
      else if is_inf a \<or> is_zero b then inf_of s
      else if is_inf b \<or> is_zero a then zero_of s
      else Fin (mag a / mag b))"

fun fl_sqrt :: "fl \<Rightarrow> fl" where
  "fl_sqrt (Fin r) = (if r < 0 then NaN else Fin (sqrt r))"
| "fl_sqrt NegZero = NegZero"
| "fl_sqrt PInf = PInf"
| "fl_sqrt NInf = NaN"
| "fl_sqrt NaN = NaN"

fun fl_exp :: "fl \<Rightarrow> fl" where
  "fl_exp (Fin r) = Fin (exp r)"
| "fl_exp NegZero = Fin 1"
| "fl_exp PInf = PInf"
| "fl_exp NInf = Fin 0"
| "fl_exp NaN = NaN"

fun fl_abs :: "fl \<Rightarrow> fl" where
  "fl_abs (Fin r) = Fin \<bar>r\<bar>"
| "fl_abs NegZero = Fin 0"
| "fl_abs PInf = PInf"
| "fl_abs NInf = PInf"
| "fl_abs NaN = NaN"

text \<open>Comparisons: every comparison with NaN is false, and \<open>-0.0 == +0.0\<close>.\<close>

fun fl_less :: "fl \<Rightarrow> fl \<Rightarrow> bool" where
  "fl_less NaN b = False"
| "fl_less a NaN = False"
| "fl_less PInf b = False"
| "fl_less a PInf = True"
| "fl_less a NInf = False"
| "fl_less NInf b = True"
| "fl_less a b = (mag a < mag b)"

text \<open>A number at run time: its dynamic type (NumPy scalar or Python float/int) and value.\<close>

datatype num = Num (is_np: bool) (val: fl)

definition py :: "real \<Rightarrow> num" where
  "py x = Num False (Fin x)"

definition num_add :: "num \<Rightarrow> num \<Rightarrow> num" where
  "num_add a b = Num (is_np a \<or> is_np b) (fl_add (val a) (val b))"

definition num_sub :: "num \<Rightarrow> num \<Rightarrow> num" where
  "num_sub a b = Num (is_np a \<or> is_np b) (fl_sub (val a) (val b))"

definition num_mul :: "num \<Rightarrow> num \<Rightarrow> num" where
  "num_mul a b = Num (is_np a \<or> is_np b) (fl_mul (val a) (val b))"

definition num_neg :: "num \<Rightarrow> num" where
  "num_neg a = Num (is_np a) (fl_neg (val a))"

text \<open>
  \<open>a / b\<close>: between two Python numbers a zero divisor raises; as soon as one operand is a
  NumPy scalar the quotient is the IEEE one (with a warning only).
\<close>

definition num_div :: "num \<Rightarrow> num \<Rightarrow> py_exn + num" where
  "num_div a b =
     (if \<not> is_np a \<and> \<not> is_np b \<and> is_zero (val b) then Inl ZeroDivisionError
      else Inr (Num (is_np a \<or> is_np b) (fl_div (val a) (val b))))"

definition num_less :: "num \<Rightarrow> num \<Rightarrow> bool" where
  "num_less a b = fl_less (val a) (val b)"

definition num_greater :: "num \<Rightarrow> num \<Rightarrow> bool" where
  "num_greater a b = fl_less (val b) (val a)"

definition py_abs :: "num \<Rightarrow> num" where
  "py_abs a = Num (is_np a) (fl_abs (val a))"

text \<open>Truth value of a number in a condition: false exactly for zero (NaN is true).\<close>

definition truthy :: "num \<Rightarrow> bool" where
  "truthy a = (\<not> is_zero (val a))"

definition np_sqrt :: "num \<Rightarrow> num" where
  "np_sqrt a = Num True (fl_sqrt (val a))"

definition np_exp :: "num \<Rightarrow> num" where
  "np_exp a = Num True (fl_exp (val a))"

definition np_isnan :: "num \<Rightarrow> bool" where
  "np_isnan a = is_nan (val a)"

text \<open>Sequencing of computations that may raise.\<close>

definition bindE :: "py_exn + 'a \<Rightarrow> ('a \<Rightarrow> py_exn + 'b) \<Rightarrow> py_exn + 'b" where
  "bindE m f = (case m of Inl e \<Rightarrow> Inl e | Inr v \<Rightarrow> f v)"

subsection \<open>The Lambert-W function of SciPy\<close>

text \<open>
  \<open>scipy.special.lambertw(z, k=0)\<close> is a library function; it is modelled by what it
  computes. On the reals from \<open>-1/e\<close> on, the principal branch is the solution \<open>w \<ge> -1\<close>
  of \<open>w * exp w = x\<close>. Below \<open>-1/e\<close> there is no real solution: the library returns the
  complex principal value (imaginary part in \<open>(0, \<pi>)\<close> on the branch cut) and the code
  keeps its real part. The special values follow the library: NaN gives NaN, a zero is
  returned as it is, \<open>+\<infinity>\<close> gives \<open>+\<infinity>\<close> and \<open>-\<infinity>\<close> gives \<open>+\<infinity> + \<pi>i\<close>.
\<close>

definition W0 :: "real \<Rightarrow> real" where
  "W0 x = (THE w. - 1 \<le> w \<and> w * exp w = x)"

definition W0_cut :: "real \<Rightarrow> complex" where
  "W0_cut x = (THE w. 0 < Im w \<and> Im w < pi \<and> w * exp w = complex_of_real x)"

fun lambertw_re :: "fl \<Rightarrow> fl" where
  "lambertw_re (Fin x) = (if x < - exp (- 1) then Fin (Re (W0_cut x)) else Fin (W0 x))"
| "lambertw_re NegZero = NegZero"
| "lambertw_re PInf = PInf"
| "lambertw_re NInf = PInf"
| "lambertw_re NaN = NaN"

text \<open>\<open>np.real(lambertw(a, k=0))\<close>\<close>

definition np_real_lambertw :: "num \<Rightarrow> num" where
  "np_real_lambertw a = Num True (lambertw_re (val a))"

section \<open>The threshold solver (\<open>utils/optimal_threshold.py\<close>)\<close>

definition calculate_lambda :: "num \<Rightarrow> num \<Rightarrow> num \<Rightarrow> num \<Rightarrow> py_exn + num" where
  "calculate_lambda mu i0 Gamma pi_infl =
     (if num_less (num_mul i0 Gamma) (py 100) then
        bindE (num_div i0 (num_sub (np_exp (num_mul i0 Gamma)) (py 1)))
          (\<lambda>q. Inr (num_add (num_add mu q) pi_infl))
      else Inr (num_add mu pi_infl))"

definition calculate_kappa :: "num \<Rightarrow> num \<Rightarrow> num \<Rightarrow> num \<Rightarrow> num" where
  "calculate_kappa M points fixed_cost tau = num_add fixed_cost (num_mul points M)"

text \<open>
  The body of the \<open>try\<close> block of \<open>calculate_optimal_threshold\<close>; the \<open>except\<close> clause
  turns any exception of it into \<open>np.nan\<close> (a Python float).
\<close>

definition x_star_try :: "num \<Rightarrow> num \<Rightarrow> py_exn + num" where
  "x_star_try psi phi =
     (let w_arg = num_neg (np_exp (num_neg phi));
          w_val = np_real_lambertw w_arg
      in bindE (num_div (py 1) psi) (\<lambda>inv_psi. Inr (num_mul inv_psi (num_add phi w_val))))"

definition calculate_optimal_threshold ::
  "num \<Rightarrow> num \<Rightarrow> num \<Rightarrow> num \<Rightarrow> num \<Rightarrow> num \<Rightarrow> py_exn + (num \<times> num \<times> num \<times> num)" where
  "calculate_optimal_threshold M rho lambda_val sigma kappa tau =
     bindE (num_div (np_sqrt (num_mul (py 2) (num_add rho lambda_val))) sigma) (\<lambda>psi.
     bindE (num_div kappa (num_sub (py 1) tau)) (\<lambda>C_M.
     bindE (num_div (num_mul (num_mul psi (num_add rho lambda_val)) C_M) M) (\<lambda>q.
       let phi = num_add (py 1) q;
           x_star = (case x_star_try psi phi of Inl e \<Rightarrow> Num False NaN | Inr x \<Rightarrow> x)
       in Inr (x_star, psi, phi, C_M))))"

definition calculate_square_root_approximation ::
  "num \<Rightarrow> num \<Rightarrow> num \<Rightarrow> num \<Rightarrow> num \<Rightarrow> num \<Rightarrow> py_exn + num" where
  "calculate_square_root_approximation M rho lambda_val sigma kappa tau =
     bindE (num_div kappa (num_mul M (num_sub (py 1) tau))) (\<lambda>q.
       let sqrt_term = num_mul (num_mul sigma (np_sqrt q))
                         (np_sqrt (num_mul (py 2) (num_add rho lambda_val)))
       in Inr (num_neg sqrt_term))"

definition calculate_npv_threshold ::
  "num \<Rightarrow> num \<Rightarrow> num \<Rightarrow> num \<Rightarrow> num \<Rightarrow> py_exn + num" where
  "calculate_npv_threshold M rho lambda_val kappa tau =
     bindE (num_div kappa (num_sub (py 1) tau)) (\<lambda>C_M.
       num_div (num_mul (num_neg (num_add rho lambda_val)) C_M) M)"

text \<open>The dictionary returned by \<open>calculate_trigger_rate\<close>; \<open>None\<close> is \<open>None\<close>.\<close>

record trigger_result =
  r_optimal_threshold_bps :: "num option"
  r_trigger_rate :: "num option"
  r_trigger_rate_pct :: "num option"
  r_x_star :: num
  r_sqrt_approx_bps :: num
  r_npv_threshold_bps :: num
  r_lambda :: num
  r_kappa :: num
  r_psi :: num
  r_phi :: num
  r_C_M :: num
  r_current_rate :: num
  r_current_rate_pct :: num

definition calculate_trigger_rate ::
  "num \<Rightarrow> num \<Rightarrow> num \<Rightarrow> num \<Rightarrow> num \<Rightarrow> num \<Rightarrow> num \<Rightarrow> num \<Rightarrow> num \<Rightarrow> num
     \<Rightarrow> py_exn + trigger_result" where
  "calculate_trigger_rate current_rate0 remaining_balance remaining_years discount_rate
      volatility tax_rate fixed_cost points prob_moving inflation_rate =
     bindE (if num_greater current_rate0 (py 1) then num_div current_rate0 (py 100)
            else Inr current_rate0) (\<lambda>current_rate.
     bindE (calculate_lambda prob_moving current_rate remaining_years inflation_rate)
       (\<lambda>lambda_val.
     let kappa = calculate_kappa remaining_balance points fixed_cost tax_rate in
     bindE (calculate_optimal_threshold remaining_balance discount_rate lambda_val
              volatility kappa tax_rate) (\<lambda>(x_star, psi, phi, C_M).
     bindE (calculate_square_root_approximation remaining_balance discount_rate lambda_val
              volatility kappa tax_rate) (\<lambda>x_star_sqrt.
     bindE (calculate_npv_threshold remaining_balance discount_rate lambda_val kappa
              tax_rate) (\<lambda>x_npv.
     let x_star_bp = (if \<not> np_isnan x_star
                      then Some (num_mul (num_neg x_star) (py 10000)) else None);
         x_star_sqrt_bp = num_mul (num_neg x_star_sqrt) (py 10000);
         x_npv_bp = num_mul (num_neg x_npv) (py 10000);
         trigger_rate = (if x_star_bp \<noteq> None
                         then Some (num_sub current_rate (py_abs x_star)) else None)
     in Inr \<lparr> r_optimal_threshold_bps = x_star_bp,
              r_trigger_rate = trigger_rate,
              r_trigger_rate_pct =
                (case trigger_rate of
                   None \<Rightarrow> None
                 | Some t \<Rightarrow> if truthy t then Some (num_mul t (py 100)) else None),
              r_x_star = x_star,
              r_sqrt_approx_bps = x_star_sqrt_bp,
              r_npv_threshold_bps = x_npv_bp,
              r_lambda = lambda_val,
              r_kappa = kappa,
              r_psi = psi,
              r_phi = phi,
              r_C_M = C_M,
              r_current_rate = current_rate,
              r_current_rate_pct = num_mul current_rate (py 100) \<rparr>)))))"

subsection \<open>The readiness check\<close>

text \<open>
  \<open>format(x, '.0f')\<close>: the value rounded to an integer, ties to even, in decimal, with a
  minus sign whenever the sign bit is set (so \<open>-0.4\<close> prints as \<open>-0\<close>).
\<close>

definition py_round :: "real \<Rightarrow> int" where
  "py_round x =
     (let f = \<lfloor>x\<rfloor>; d = x - of_int f
      in if d < 1 / 2 then f else if 1 / 2 < d then f + 1 else if even f then f else f + 1)"

fun show_nat :: "nat \<Rightarrow> string" where
  "show_nat n =
     (if n < 10 then [char_of (48 + n)]
      else show_nat (n div 10) @ [char_of (48 + n mod 10)])"

fun format_0f :: "fl \<Rightarrow> string" where
  "format_0f (Fin r) =
     (if r < 0 then ''-'' @ show_nat (nat (- py_round r)) else show_nat (nat (py_round r)))"
| "format_0f NegZero = ''-0''"
| "format_0f PInf = ''inf''"
| "format_0f NInf = ''-inf''"
| "format_0f NaN = ''nan''"

record ready_result =
  is_ready :: bool
  difference :: "num option"
  difference_bps :: "num option"
  message :: string

definition is_ready_to_refinance :: "num option \<Rightarrow> num option \<Rightarrow> ready_result" where
  "is_ready_to_refinance trigger_rate available_rate =
     (case (trigger_rate, available_rate) of
        (Some t, Some a) \<Rightarrow>
          (let diff = num_sub t a;
               diff_bps = num_mul diff (py 10000)
           in if num_greater diff (py 0) then
                \<lparr> is_ready = True, difference = Some diff, difference_bps = Some diff_bps,
                  message = ''Ready to refinance! Available rate is ''
                            @ format_0f (val diff_bps) @ '' bps below trigger.'' \<rparr>
              else
                \<lparr> is_ready = False, difference = Some diff, difference_bps = Some diff_bps,
                  message = ''Not ready. Need rates to drop ''
                            @ format_0f (val (num_neg diff_bps)) @ '' more bps.'' \<rparr>)
      | _ \<Rightarrow>
          \<lparr> is_ready = False, difference = None, difference_bps = None,
            message = ''Missing rate data'' \<rparr>)"

section \<open>The rate pricing engine (\<open>utils/rate_calculator.py\<close>)\<close>

text \<open>
  Rates, points, loan-to-value ratios and loan amounts are finite floats, modelled as reals;
  every table entry is a multiple of \<open>1/8\<close>, so the sums of table entries are exact in the
  code as well. A dictionary is an association list in insertion order. \<open>d[k]\<close> raises
  \<open>KeyError\<close> for a missing key, \<open>d.get(k, default)\<close> does not.
\<close>

definition dict_get :: "(string \<times> 'v) list \<Rightarrow> string \<Rightarrow> py_exn + 'v" where
  "dict_get d k = (case map_of d k of None \<Rightarrow> Inl KeyError | Some v \<Rightarrow> Inr v)"

definition dict_get_or :: "(string \<times> 'v) list \<Rightarrow> string \<Rightarrow> 'v \<Rightarrow> 'v" where
  "dict_get_or d k dflt = (case map_of d k of None \<Rightarrow> dflt | Some v \<Rightarrow> v)"

text \<open>\<open>T[a][b]\<close>\<close>

definition matrix_get ::
  "(string \<times> (string \<times> 'v) list) list \<Rightarrow> string \<Rightarrow> string \<Rightarrow> py_exn + 'v" where
  "matrix_get T a b = bindE (dict_get T a) (\<lambda>row. dict_get row b)"

text \<open>\<open>sum(xs)\<close> adds from the left, starting at 0.\<close>

definition py_sum :: "real list \<Rightarrow> real" where
  "py_sum xs = foldl (\<lambda>acc x. acc + x) 0 xs"



definition CONFORMING_LIMIT_2025 :: real where
  "CONFORMING_LIMIT_2025 = 806500"

definition HIGH_BALANCE_LIMIT_2025 :: real where
  "HIGH_BALANCE_LIMIT_2025 = 1209750"

definition get_ltv_bucket :: "real \<Rightarrow> string" where
  "get_ltv_bucket ltv =
     (if ltv \<le> 30 then ''<=30''
      else if ltv \<le> 60 then ''30.01-60''
      else if ltv \<le> 70 then ''60.01-70''
      else if ltv \<le> 75 then ''70.01-75''
      else if ltv \<le> 80 then ''75.01-80''
      else if ltv \<le> 85 then ''80.01-85''
      else if ltv \<le> 90 then ''85.01-90''
      else if ltv \<le> 95 then ''90.01-95''
      else ''>95'')"

definition get_ltv_bucket_cashout :: "real \<Rightarrow> string" where
  "get_ltv_bucket_cashout ltv =
     (if ltv \<le> 30 then ''<=30''
      else if ltv \<le> 60 then ''30.01-60''
      else if ltv \<le> 70 then ''60.01-70''
      else if ltv \<le> 75 then ''70.01-75''
      else ''75.01-80'')"

definition get_credit_score_bucket :: "int \<Rightarrow> string" where
  "get_credit_score_bucket credit_score =
     (if credit_score \<ge> 780 then ''>=780''
      else if credit_score \<ge> 760 then ''760-779''
      else if credit_score \<ge> 740 then ''740-759''
      else if credit_score \<ge> 720 then ''720-739''
      else if credit_score \<ge> 700 then ''700-719''
      else if credit_score \<ge> 680 then ''680-699''
      else if credit_score \<ge> 660 then ''660-679''
      else if credit_score \<ge> 640 then ''640-659''
      else ''<=639'')"

definition PURCHASE_CREDIT_SCORE_LTV :: "(string \<times> (string \<times> real) list) list" where
  "PURCHASE_CREDIT_SCORE_LTV =
     [(''>=780'',
        [(''<=30'', 0.000), (''30.01-60'', 0.000), (''60.01-70'', 0.000),
         (''70.01-75'', 0.000), (''75.01-80'', 0.375), (''80.01-85'', 0.375),
         (''85.01-90'', 0.250), (''90.01-95'', 0.250), (''>95'', 0.125)]),
      (''760-779'',
        [(''<=30'', 0.000), (''30.01-60'', 0.000), (''60.01-70'', 0.000),
         (''70.01-75'', 0.250), (''75.01-80'', 0.625), (''80.01-85'', 0.625),
         (''85.01-90'', 0.500), (''90.01-95'', 0.500), (''>95'', 0.250)]),
      (''740-759'',
        [(''<=30'', 0.000), (''30.01-60'', 0.000), (''60.01-70'', 0.125),
         (''70.01-75'', 0.375), (''75.01-80'', 0.875), (''80.01-85'', 1.000),
         (''85.01-90'', 0.750), (''90.01-95'', 0.625), (''>95'', 0.500)]),
      (''720-739'',
        [(''<=30'', 0.000), (''30.01-60'', 0.000), (''60.01-70'', 0.250),
         (''70.01-75'', 0.750), (''75.01-80'', 1.250), (''80.01-85'', 1.250),
         (''85.01-90'', 1.000), (''90.01-95'', 0.875), (''>95'', 0.750)]),
      (''700-719'',
        [(''<=30'', 0.000), (''30.01-60'', 0.000), (''60.01-70'', 0.375),
         (''70.01-75'', 0.875), (''75.01-80'', 1.375), (''80.01-85'', 1.500),
         (''85.01-90'', 1.250), (''90.01-95'', 1.125), (''>95'', 0.875)]),
      (''680-699'',
        [(''<=30'', 0.000), (''30.01-60'', 0.000), (''60.01-70'', 0.625),
         (''70.01-75'', 1.125), (''75.01-80'', 1.750), (''80.01-85'', 1.875),
         (''85.01-90'', 1.500), (''90.01-95'', 1.375), (''>95'', 1.125)]),
      (''660-679'',
        [(''<=30'', 0.000), (''30.01-60'', 0.000), (''60.01-70'', 0.750),
         (''70.01-75'', 1.375), (''75.01-80'', 1.875), (''80.01-85'', 2.125),
         (''85.01-90'', 1.750), (''90.01-95'', 1.625), (''>95'', 1.250)]),
      (''640-659'',
        [(''<=30'', 0.000), (''30.01-60'', 0.000), (''60.01-70'', 1.125),
         (''70.01-75'', 1.500), (''75.01-80'', 2.250), (''80.01-85'', 2.500),
         (''85.01-90'', 2.000), (''90.01-95'', 1.875), (''>95'', 1.500)]),
      (''<=639'',
        [(''<=30'', 0.000), (''30.01-60'', 0.125), (''60.01-70'', 1.500),
         (''70.01-75'', 2.125), (''75.01-80'', 2.750), (''80.01-85'', 2.875),
         (''85.01-90'', 2.625), (''90.01-95'', 2.250), (''>95'', 1.750)])]"

definition LIMITED_CASHOUT_CREDIT_SCORE_LTV :: "(string \<times> (string \<times> real) list) list" where
  "LIMITED_CASHOUT_CREDIT_SCORE_LTV =
     [(''>=780'',
        [(''<=30'', 0.000), (''30.01-60'', 0.000), (''60.01-70'', 0.000),
         (''70.01-75'', 0.125), (''75.01-80'', 0.500), (''80.01-85'', 0.625),
         (''85.01-90'', 0.500), (''90.01-95'', 0.375), (''>95'', 0.375)]),
      (''760-779'',
        [(''<=30'', 0.000), (''30.01-60'', 0.000), (''60.01-70'', 0.125),
         (''70.01-75'', 0.375), (''75.01-80'', 0.875), (''80.01-85'', 1.000),
         (''85.01-90'', 0.750), (''90.01-95'', 0.625), (''>95'', 0.625)]),
      (''740-759'',
        [(''<=30'', 0.000), (''30.01-60'', 0.000), (''60.01-70'', 0.250),
         (''70.01-75'', 0.750), (''75.01-80'', 1.125), (''80.01-85'', 1.375),
         (''85.01-90'', 1.125), (''90.01-95'', 1.000), (''>95'', 1.000)]),
      (''720-739'',
        [(''<=30'', 0.000), (''30.01-60'', 0.000), (''60.01-70'', 0.500),
         (''70.01-75'', 1.000), (''75.01-80'', 1.625), (''80.01-85'', 1.750),
         (''85.01-90'', 1.500), (''90.01-95'', 1.250), (''>95'', 1.250)]),
      (''700-719'',
        [(''<=30'', 0.000), (''30.01-60'', 0.000), (''60.01-70'', 0.625),
         (''70.01-75'', 1.250), (''75.01-80'', 1.875), (''80.01-85'', 2.125),
         (''85.01-90'', 1.750), (''90.01-95'', 1.625), (''>95'', 1.625)]),
      (''680-699'',
        [(''<=30'', 0.000), (''30.01-60'', 0.000), (''60.01-70'', 0.875),
         (''70.01-75'', 1.625), (''75.01-80'', 2.250), (''80.01-85'', 2.500),
         (''85.01-90'', 2.125), (''90.01-95'', 1.750), (''>95'', 1.750)]),
      (''660-679'',
        [(''<=30'', 0.000), (''30.01-60'', 0.125), (''60.01-70'', 1.125),
         (''70.01-75'', 1.875), (''75.01-80'', 2.500), (''80.01-85'', 3.000),
         (''85.01-90'', 2.375), (''90.01-95'', 2.125), (''>95'', 2.125)]),
      (''640-659'',
        [(''<=30'', 0.000), (''30.01-60'', 0.250), (''60.01-70'', 1.375),
         (''70.01-75'', 2.125), (''75.01-80'', 2.875), (''80.01-85'', 3.375),
         (''85.01-90'', 2.875), (''90.01-95'', 2.500), (''>95'', 2.500)]),
      (''<=639'',
        [(''<=30'', 0.000), (''30.01-60'', 0.375), (''60.01-70'', 1.750),
         (''70.01-75'', 2.500), (''75.01-80'', 3.500), (''80.01-85'', 3.875),
         (''85.01-90'', 3.625), (''90.01-95'', 2.500), (''>95'', 2.500)])]"

definition PURCHASE_CONDO :: "(string \<times> real) list" where
  "PURCHASE_CONDO =
     [(''<=30'', 0.000), (''30.01-60'', 0.000), (''60.01-70'', 0.125),
      (''70.01-75'', 0.125), (''75.01-80'', 0.750), (''80.01-85'', 0.750),
      (''85.01-90'', 0.750), (''90.01-95'', 0.750), (''>95'', 0.750)]"

definition PURCHASE_INVESTMENT :: "(string \<times> real) list" where
  "PURCHASE_INVESTMENT =
     [(''<=30'', 1.125), (''30.01-60'', 1.125), (''60.01-70'', 1.625),
      (''70.01-75'', 2.125), (''75.01-80'', 3.375), (''80.01-85'', 4.125),
      (''85.01-90'', 4.125), (''90.01-95'', 4.125), (''>95'', 4.125)]"

definition PURCHASE_SECOND_HOME :: "(string \<times> real) list" where
  "PURCHASE_SECOND_HOME =
     [(''<=30'', 1.125), (''30.01-60'', 1.125), (''60.01-70'', 1.625),
      (''70.01-75'', 2.125), (''75.01-80'', 3.375), (''80.01-85'', 4.125),
      (''85.01-90'', 4.125), (''90.01-95'', 4.125), (''>95'', 4.125)]"

definition PURCHASE_2_TO_4_UNIT :: "(string \<times> real) list" where
  "PURCHASE_2_TO_4_UNIT =
     [(''<=30'', 0.000), (''30.01-60'', 0.000), (''60.01-70'', 0.375),
      (''70.01-75'', 0.375), (''75.01-80'', 0.625), (''80.01-85'', 0.625),
      (''85.01-90'', 0.625), (''90.01-95'', 0.625), (''>95'', 0.625)]"

definition PURCHASE_HIGH_BALANCE_FIXED :: "(string \<times> real) list" where
  "PURCHASE_HIGH_BALANCE_FIXED =
     [(''<=30'', 0.500), (''30.01-60'', 0.500), (''60.01-70'', 0.750),
      (''70.01-75'', 0.750), (''75.01-80'', 1.000), (''80.01-85'', 1.000),
      (''85.01-90'', 1.000), (''90.01-95'', 1.000), (''>95'', 1.000)]"


text \<open>
  The dictionary returned by \<open>calculate_conventional_llpa\<close>: the four adjustments in the
  order they are stored, then their total.
\<close>

definition calculate_conventional_llpa ::
  "int \<Rightarrow> real \<Rightarrow> real \<Rightarrow> string \<Rightarrow> string \<Rightarrow> string \<Rightarrow> py_exn + (string \<times> real) list" where
  "calculate_conventional_llpa credit_score ltv loan_amount loan_purpose property_type
      occupancy =
     (let score_bucket = get_credit_score_bucket credit_score;
          ltv_bucket = get_ltv_bucket ltv
      in
      bindE (if loan_purpose = ''Purchase''
             then matrix_get PURCHASE_CREDIT_SCORE_LTV score_bucket ltv_bucket
             else matrix_get LIMITED_CASHOUT_CREDIT_SCORE_LTV score_bucket ltv_bucket)
        (\<lambda>credit_ltv.
      bindE (if property_type = ''Condo'' then dict_get PURCHASE_CONDO ltv_bucket
             else if property_type \<in> set [''2-Unit'', ''3-Unit'', ''4-Unit'']
             then dict_get PURCHASE_2_TO_4_UNIT ltv_bucket
             else Inr 0)
        (\<lambda>prop.
      bindE (if occupancy = ''Investment Property''
             then dict_get PURCHASE_INVESTMENT ltv_bucket
             else if occupancy = ''Second Home''
             then dict_get PURCHASE_SECOND_HOME ltv_bucket
             else Inr 0)
        (\<lambda>occ.
      bindE (if loan_amount > CONFORMING_LIMIT_2025
             then dict_get PURCHASE_HIGH_BALANCE_FIXED ltv_bucket
             else Inr 0)
        (\<lambda>high.
      let adjustments = [(''Credit Score / LTV'', credit_ltv), (''Property Type'', prop),
                         (''Occupancy'', occ), (''High Balance'', high)];
          total_llpa = py_sum (map snd adjustments)
      in Inr (adjustments @ [(''Total LLPA'', total_llpa)]))))))"

text \<open>The dictionary returned by \<open>calculate_available_rate\<close>.\<close>

record available_rate =
  ar_base_rate :: real
  ar_total_llpa :: real
  ar_state_adjustment :: real
  ar_final_rate :: real
  ar_final_rate_decimal :: real
  ar_adjustments :: "(string \<times> real) list"
  ar_loan_type :: string
  ar_note :: "string option"


section \<open>The LLPA module (\<open>utils/llpa.py\<close>)\<close>

text \<open>
  The module has its own copies of the limits, the bucket functions and the tables; they
  are modelled from its text, with the prefix \<open>llpa_\<close>.
\<close>

definition llpa_CONFORMING_LIMIT_2025 :: real where
  "llpa_CONFORMING_LIMIT_2025 = 806500"

definition llpa_get_ltv_bucket :: "real \<Rightarrow> string" where
  "llpa_get_ltv_bucket ltv =
     (if ltv \<le> 30 then ''<=30''
      else if ltv \<le> 60 then ''30.01-60''
      else if ltv \<le> 70 then ''60.01-70''
      else if ltv \<le> 75 then ''70.01-75''
      else if ltv \<le> 80 then ''75.01-80''
      else if ltv \<le> 85 then ''80.01-85''
      else if ltv \<le> 90 then ''85.01-90''
      else if ltv \<le> 95 then ''90.01-95''
      else ''>95'')"

definition llpa_get_ltv_bucket_cashout :: "real \<Rightarrow> string" where
  "llpa_get_ltv_bucket_cashout ltv =
     (if ltv \<le> 30 then ''<=30''
      else if ltv \<le> 60 then ''30.01-60''
      else if ltv \<le> 70 then ''60.01-70''
      else if ltv \<le> 75 then ''70.01-75''
      else ''75.01-80'')"

definition llpa_get_credit_score_bucket :: "int \<Rightarrow> string" where
  "llpa_get_credit_score_bucket credit_score =
     (if credit_score \<ge> 780 then ''>=780''
      else if credit_score \<ge> 760 then ''760-779''
      else if credit_score \<ge> 740 then ''740-759''
      else if credit_score \<ge> 720 then ''720-739''
      else if credit_score \<ge> 700 then ''700-719''
      else if credit_score \<ge> 680 then ''680-699''
      else if credit_score \<ge> 660 then ''660-679''
      else if credit_score \<ge> 640 then ''640-659''
      else ''<=639'')"

definition llpa_PURCHASE_CREDIT_SCORE_LTV :: "(string \<times> (string \<times> real) list) list" where
  "llpa_PURCHASE_CREDIT_SCORE_LTV =
     [(''>=780'',
        [(''<=30'', 0.000), (''30.01-60'', 0.000), (''60.01-70'', 0.000),
         (''70.01-75'', 0.000), (''75.01-80'', 0.375), (''80.01-85'', 0.375),
         (''85.01-90'', 0.250), (''90.01-95'', 0.250), (''>95'', 0.125)]),
      (''760-779'',
        [(''<=30'', 0.000), (''30.01-60'', 0.000), (''60.01-70'', 0.000),
         (''70.01-75'', 0.250), (''75.01-80'', 0.625), (''80.01-85'', 0.625),
         (''85.01-90'', 0.500), (''90.01-95'', 0.500), (''>95'', 0.250)]),
      (''740-759'',
        [(''<=30'', 0.000), (''30.01-60'', 0.000), (''60.01-70'', 0.125),
         (''70.01-75'', 0.375), (''75.01-80'', 0.875), (''80.01-85'', 1.000),
         (''85.01-90'', 0.750), (''90.01-95'', 0.625), (''>95'', 0.500)]),
      (''720-739'',
        [(''<=30'', 0.000), (''30.01-60'', 0.000), (''60.01-70'', 0.250),
         (''70.01-75'', 0.750), (''75.01-80'', 1.250), (''80.01-85'', 1.250),
         (''85.01-90'', 1.000), (''90.01-95'', 0.875), (''>95'', 0.750)]),
      (''700-719'',
        [(''<=30'', 0.000), (''30.01-60'', 0.000), (''60.01-70'', 0.375),
         (''70.01-75'', 0.875), (''75.01-80'', 1.375), (''80.01-85'', 1.500),
         (''85.01-90'', 1.250), (''90.01-95'', 1.125), (''>95'', 0.875)]),
      (''680-699'',
        [(''<=30'', 0.000), (''30.01-60'', 0.000), (''60.01-70'', 0.625),
         (''70.01-75'', 1.125), (''75.01-80'', 1.750), (''80.01-85'', 1.875),
         (''85.01-90'', 1.500), (''90.01-95'', 1.375), (''>95'', 1.125)]),
      (''660-679'',
        [(''<=30'', 0.000), (''30.01-60'', 0.000), (''60.01-70'', 0.750),
         (''70.01-75'', 1.375), (''75.01-80'', 1.875), (''80.01-85'', 2.125),
         (''85.01-90'', 1.750), (''90.01-95'', 1.625), (''>95'', 1.250)]),
      (''640-659'',
        [(''<=30'', 0.000), (''30.01-60'', 0.000), (''60.01-70'', 1.125),
         (''70.01-75'', 1.500), (''75.01-80'', 2.250), (''80.01-85'', 2.500),
         (''85.01-90'', 2.000), (''90.01-95'', 1.875), (''>95'', 1.500)]),
      (''<=639'',
        [(''<=30'', 0.000), (''30.01-60'', 0.125), (''60.01-70'', 1.500),
         (''70.01-75'', 2.125), (''75.01-80'', 2.750), (''80.01-85'', 2.875),
         (''85.01-90'', 2.625), (''90.01-95'', 2.250), (''>95'', 1.750)])]"

definition llpa_LIMITED_CASHOUT_CREDIT_SCORE_LTV :: "(string \<times> (string \<times> real) list) list" where
  "llpa_LIMITED_CASHOUT_CREDIT_SCORE_LTV =
     [(''>=780'',
        [(''<=30'', 0.000), (''30.01-60'', 0.000), (''60.01-70'', 0.000),
         (''70.01-75'', 0.125), (''75.01-80'', 0.500), (''80.01-85'', 0.625),
         (''85.01-90'', 0.500), (''90.01-95'', 0.375), (''>95'', 0.375)]),
      (''760-779'',
        [(''<=30'', 0.000), (''30.01-60'', 0.000), (''60.01-70'', 0.125),
         (''70.01-75'', 0.375), (''75.01-80'', 0.875), (''80.01-85'', 1.000),
         (''85.01-90'', 0.750), (''90.01-95'', 0.625), (''>95'', 0.625)]),
      (''740-759'',
        [(''<=30'', 0.000), (''30.01-60'', 0.000), (''60.01-70'', 0.250),
         (''70.01-75'', 0.750), (''75.01-80'', 1.125), (''80.01-85'', 1.375),
         (''85.01-90'', 1.125), (''90.01-95'', 1.000), (''>95'', 1.000)]),
      (''720-739'',
        [(''<=30'', 0.000), (''30.01-60'', 0.000), (''60.01-70'', 0.500),
         (''70.01-75'', 1.000), (''75.01-80'', 1.625), (''80.01-85'', 1.750),
         (''85.01-90'', 1.500), (''90.01-95'', 1.250), (''>95'', 1.250)]),
      (''700-719'',
        [(''<=30'', 0.000), (''30.01-60'', 0.000), (''60.01-70'', 0.625),
         (''70.01-75'', 1.250), (''75.01-80'', 1.875), (''80.01-85'', 2.125),
         (''85.01-90'', 1.750), (''90.01-95'', 1.625), (''>95'', 1.625)]),
      (''680-699'',
        [(''<=30'', 0.000), (''30.01-60'', 0.000), (''60.01-70'', 0.875),
         (''70.01-75'', 1.625), (''75.01-80'', 2.250), (''80.01-85'', 2.500),
         (''85.01-90'', 2.125), (''90.01-95'', 1.750), (''>95'', 1.750)]),
      (''660-679'',
        [(''<=30'', 0.000), (''30.01-60'', 0.125), (''60.01-70'', 1.125),
         (''70.01-75'', 1.875), (''75.01-80'', 2.500), (''80.01-85'', 3.000),
         (''85.01-90'', 2.375), (''90.01-95'', 2.125), (''>95'', 2.125)]),
      (''640-659'',
        [(''<=30'', 0.000), (''30.01-60'', 0.250), (''60.01-70'', 1.375),
         (''70.01-75'', 2.125), (''75.01-80'', 2.875), (''80.01-85'', 3.375),
         (''85.01-90'', 2.875), (''90.01-95'', 2.500), (''>95'', 2.500)]),
      (''<=639'',
        [(''<=30'', 0.000), (''30.01-60'', 0.375), (''60.01-70'', 1.750),
         (''70.01-75'', 2.500), (''75.01-80'', 3.500), (''80.01-85'', 3.875),
         (''85.01-90'', 3.625), (''90.01-95'', 2.500), (''>95'', 2.500)])]"

definition llpa_CASHOUT_CREDIT_SCORE_LTV :: "(string \<times> (string \<times> real) list) list" where
  "llpa_CASHOUT_CREDIT_SCORE_LTV =
     [(''>=780'',
        [(''<=30'', 0.375), (''30.01-60'', 0.375), (''60.01-70'', 0.625),
         (''70.01-75'', 0.875), (''75.01-80'', 1.375)]),
      (''760-779'',
        [(''<=30'', 0.375), (''30.01-60'', 0.375), (''60.01-70'', 0.875),
         (''70.01-75'', 1.250), (''75.01-80'', 1.875)]),
      (''740-759'',
        [(''<=30'', 0.375), (''30.01-60'', 0.375), (''60.01-70'', 1.000),
         (''70.01-75'', 1.625), (''75.01-80'', 2.375)]),
      (''720-739'',
        [(''<=30'', 0.375), (''30.01-60'', 0.500), (''60.01-70'', 1.375),
         (''70.01-75'', 2.000), (''75.01-80'', 2.750)]),
      (''700-719'',
        [(''<=30'', 0.375), (''30.01-60'', 0.500), (''60.01-70'', 1.625),
         (''70.01-75'', 2.625), (''75.01-80'', 3.250)]),
      (''680-699'',
        [(''<=30'', 0.375), (''30.01-60'', 0.625), (''60.01-70'', 2.000),
         (''70.01-75'', 2.875), (''75.01-80'', 3.750)]),
      (''660-679'',
        [(''<=30'', 0.375), (''30.01-60'', 0.875), (''60.01-70'', 2.750),
         (''70.01-75'', 4.000), (''75.01-80'', 4.750)]),
      (''640-659'',
        [(''<=30'', 0.375), (''30.01-60'', 1.375), (''60.01-70'', 3.125),
         (''70.01-75'', 4.625), (''75.01-80'', 5.125)]),
      (''<=639'',
        [(''<=30'', 0.375), (''30.01-60'', 1.375), (''60.01-70'', 3.375),
         (''70.01-75'', 4.875), (''75.01-80'', 5.125)])]"

definition llpa_CONDO_ADJUSTMENT :: "(string \<times> real) list" where
  "llpa_CONDO_ADJUSTMENT =
     [(''<=30'', 0.000), (''30.01-60'', 0.000), (''60.01-70'', 0.125),
      (''70.01-75'', 0.125), (''75.01-80'', 0.750), (''80.01-85'', 0.750),
      (''85.01-90'', 0.750), (''90.01-95'', 0.750), (''>95'', 0.750)]"

definition llpa_MULTI_UNIT_ADJUSTMENT :: "(string \<times> real) list" where
  "llpa_MULTI_UNIT_ADJUSTMENT =
     [(''<=30'', 0.000), (''30.01-60'', 0.000), (''60.01-70'', 0.375),
      (''70.01-75'', 0.375), (''75.01-80'', 0.625), (''80.01-85'', 0.625),
      (''85.01-90'', 0.625), (''90.01-95'', 0.625), (''>95'', 0.625)]"

definition llpa_MANUFACTURED_ADJUSTMENT :: "(string \<times> real) list" where
  "llpa_MANUFACTURED_ADJUSTMENT =
     [(''<=30'', 0.500), (''30.01-60'', 0.500), (''60.01-70'', 0.500),
      (''70.01-75'', 0.500), (''75.01-80'', 0.500), (''80.01-85'', 0.500),
      (''85.01-90'', 0.500), (''90.01-95'', 0.500), (''>95'', 0.500)]"

definition llpa_INVESTMENT_PROPERTY_ADJUSTMENT :: "(string \<times> real) list" where
  "llpa_INVESTMENT_PROPERTY_ADJUSTMENT =
     [(''<=30'', 1.125), (''30.01-60'', 1.125), (''60.01-70'', 1.625),
      (''70.01-75'', 2.125), (''75.01-80'', 3.375), (''80.01-85'', 4.125),
      (''85.01-90'', 4.125), (''90.01-95'', 4.125), (''>95'', 4.125)]"

definition llpa_SECOND_HOME_ADJUSTMENT :: "(string \<times> real) list" where
  "llpa_SECOND_HOME_ADJUSTMENT =
     [(''<=30'', 1.125), (''30.01-60'', 1.125), (''60.01-70'', 1.625),
      (''70.01-75'', 2.125), (''75.01-80'', 3.375), (''80.01-85'', 4.125),
      (''85.01-90'', 4.125), (''90.01-95'', 4.125), (''>95'', 4.125)]"

definition llpa_HIGH_BALANCE_FIXED :: "(string \<times> real) list" where
  "llpa_HIGH_BALANCE_FIXED =
     [(''<=30'', 0.500), (''30.01-60'', 0.500), (''60.01-70'', 0.750),
      (''70.01-75'', 0.750), (''75.01-80'', 1.000), (''80.01-85'', 1.000),
      (''85.01-90'', 1.000), (''90.01-95'', 1.000), (''>95'', 1.000)]"

definition llpa_HIGH_BALANCE_ARM :: "(string \<times> real) list" where
  "llpa_HIGH_BALANCE_ARM =
     [(''<=30'', 1.250), (''30.01-60'', 1.250), (''60.01-70'', 1.500),
      (''70.01-75'', 1.500), (''75.01-80'', 2.500), (''80.01-85'', 2.500),
      (''85.01-90'', 2.500), (''90.01-95'', 2.750), (''>95'', 2.750)]"

definition llpa_SUBORDINATE_FINANCING_ADJUSTMENT :: "(string \<times> real) list" where
  "llpa_SUBORDINATE_FINANCING_ADJUSTMENT =
     [(''<=30'', 0.625), (''30.01-60'', 0.625), (''60.01-70'', 0.625),
      (''70.01-75'', 0.875), (''75.01-80'', 1.125), (''80.01-85'', 1.125),
      (''85.01-90'', 1.125), (''90.01-95'', 1.875), (''>95'', 1.875)]"


definition get_credit_score_ltv_adjustment :: "int \<Rightarrow> real \<Rightarrow> string \<Rightarrow> py_exn + real" where
  "get_credit_score_ltv_adjustment credit_score ltv loan_purpose =
     (let score_bucket = llpa_get_credit_score_bucket credit_score in
      if loan_purpose = ''Purchase'' then
        matrix_get llpa_PURCHASE_CREDIT_SCORE_LTV score_bucket (llpa_get_ltv_bucket ltv)
      else if loan_purpose = ''Rate/Term Refinance'' then
        matrix_get llpa_LIMITED_CASHOUT_CREDIT_SCORE_LTV score_bucket (llpa_get_ltv_bucket ltv)
      else if loan_purpose = ''Cash-Out Refinance'' then
        matrix_get llpa_CASHOUT_CREDIT_SCORE_LTV score_bucket
          (llpa_get_ltv_bucket_cashout ltv)
      else Inr 0)"

definition get_property_type_adjustment :: "string \<Rightarrow> real \<Rightarrow> string \<Rightarrow> real" where
  "get_property_type_adjustment property_type ltv loan_purpose =
     (let ltv_bucket = (if loan_purpose = ''Cash-Out Refinance''
                        then llpa_get_ltv_bucket_cashout ltv else llpa_get_ltv_bucket ltv)
      in if property_type = ''Condo'' then dict_get_or llpa_CONDO_ADJUSTMENT ltv_bucket 0
         else if property_type \<in> set [''2-Unit'', ''3-Unit'', ''4-Unit'']
         then dict_get_or llpa_MULTI_UNIT_ADJUSTMENT ltv_bucket 0
         else if property_type = ''Manufactured Home''
         then dict_get_or llpa_MANUFACTURED_ADJUSTMENT ltv_bucket 0
         else 0)"

definition get_occupancy_adjustment :: "string \<Rightarrow> real \<Rightarrow> string \<Rightarrow> real" where
  "get_occupancy_adjustment occupancy ltv loan_purpose =
     (let ltv_bucket = (if loan_purpose = ''Cash-Out Refinance''
                        then llpa_get_ltv_bucket_cashout ltv else llpa_get_ltv_bucket ltv)
      in if occupancy = ''Investment Property''
         then dict_get_or llpa_INVESTMENT_PROPERTY_ADJUSTMENT ltv_bucket 0
         else if occupancy = ''Second Home''
         then dict_get_or llpa_SECOND_HOME_ADJUSTMENT ltv_bucket 0
         else 0)"

definition get_high_balance_adjustment :: "real \<Rightarrow> real \<Rightarrow> bool \<Rightarrow> real" where
  "get_high_balance_adjustment loan_amount ltv is_arm =
     (if loan_amount \<le> llpa_CONFORMING_LIMIT_2025 then 0
      else let ltv_bucket = llpa_get_ltv_bucket ltv
           in if is_arm then dict_get_or llpa_HIGH_BALANCE_ARM ltv_bucket 0
              else dict_get_or llpa_HIGH_BALANCE_FIXED ltv_bucket 0)"

definition get_subordinate_financing_adjustment :: "real \<Rightarrow> real \<Rightarrow> real" where
  "get_subordinate_financing_adjustment ltv cltv =
     (if cltv \<le> ltv then 0
      else dict_get_or llpa_SUBORDINATE_FINANCING_ADJUSTMENT (llpa_get_ltv_bucket ltv) 0)"

text \<open>
  The dictionary of \<open>calculate_total_llpa\<close> holds floats, a boolean and a string. Its
  total adds the values that are \<open>int\<close> or \<open>float\<close> instances (a \<open>bool\<close> is one).
\<close>

datatype pyval = PFloat real | PBool bool | PStr string

fun numeric_values :: "pyval list \<Rightarrow> real list" where
  "numeric_values [] = []"
| "numeric_values (PFloat x # vs) = x # numeric_values vs"
| "numeric_values (PBool b # vs) = (if b then 1 else 0) # numeric_values vs"
| "numeric_values (PStr s # vs) = numeric_values vs"

definition calculate_total_llpa ::
  "int \<Rightarrow> real \<Rightarrow> real \<Rightarrow> string \<Rightarrow> string \<Rightarrow> string \<Rightarrow> bool \<Rightarrow> real option \<Rightarrow> bool \<Rightarrow> bool
     \<Rightarrow> py_exn + (string \<times> pyval) list" where
  "calculate_total_llpa credit_score ltv loan_amount loan_purpose property_type occupancy
      is_arm cltv0 is_homeready is_first_time_buyer_low_income =
     (if is_homeready \<or> is_first_time_buyer_low_income then
        Inr [(''Credit Score / LTV'', PFloat 0), (''Property Type'', PFloat 0),
             (''Occupancy'', PFloat 0), (''High Balance'', PFloat 0),
             (''Subordinate Financing'', PFloat 0), (''Total LLPA'', PFloat 0),
             (''LLPA Waiver Applied'', PBool True),
             (''waiver_reason'',
                PStr (if is_homeready then ''HomeReady'' else ''First-Time Buyer Low Income''))]
      else
        let cltv = (case cltv0 of None \<Rightarrow> ltv | Some c \<Rightarrow> c) in
        bindE (get_credit_score_ltv_adjustment credit_score ltv loan_purpose) (\<lambda>credit_ltv.
          let adjustments =
                [(''Credit Score / LTV'', PFloat credit_ltv),
                 (''Property Type'',
                    PFloat (get_property_type_adjustment property_type ltv loan_purpose)),
                 (''Occupancy'', PFloat (get_occupancy_adjustment occupancy ltv loan_purpose)),
                 (''High Balance'', PFloat (get_high_balance_adjustment loan_amount ltv is_arm)),
                 (''Subordinate Financing'',
                    PFloat (get_subordinate_financing_adjustment ltv cltv))];
              total = py_sum (numeric_values (map snd adjustments))
          in Inr (adjustments @ [(''Total LLPA'', PFloat total),
                                 (''LLPA Waiver Applied'', PBool False)])))"

section \<open>The amortization simulator (\<open>pages/other_tools.py\<close>)\<close>








subsection \<open>ENPV with mortality\<close>

text \<open>
  The block of \<open>render_enpv_analysis\<close> that weights the discounted gains \<open>net_gain_pv\<close>
  with the monthly mortality. \<open>(1 - enpv_cpr) ** (1/12)\<close> is a complex number for a negative
  base, and the later comparison \<open>survival > 0.001\<close> of a complex number raises
  \<open>TypeError\<close>.
\<close>



section \<open>Reading results\<close>

text \<open>\<open>reads a x\<close>: the number \<open>a\<close> is finite and denotes the real \<open>x\<close>.\<close>

definition reads :: "num \<Rightarrow> real \<Rightarrow> bool" where
  "reads a x = (to_real (val a) = Some x)"

text \<open>The keys of the LLPA tables.\<close>

definition ltv_buckets :: "string list" where
  "ltv_buckets = [''<=30'', ''30.01-60'', ''60.01-70'', ''70.01-75'', ''75.01-80'',
                  ''80.01-85'', ''85.01-90'', ''90.01-95'', ''>95'']"

definition score_buckets :: "string list" where
  "score_buckets = [''>=780'', ''760-779'', ''740-759'', ''720-739'', ''700-719'',
                    ''680-699'', ''660-679'', ''640-659'', ''<=639'']"


section \<open>Arithmetic on finite values\<close>

lemma to_real_cases: "to_real a = Some x \<Longrightarrow> a = Fin x \<or> (a = NegZero \<and> x = 0)"
  by (cases a) auto

lemma to_real_add: "to_real a = Some x \<Longrightarrow> to_real b = Some y \<Longrightarrow> to_real (fl_add a b) = Some (x + y)"
  by (cases a; cases b) auto

lemma to_real_neg: "to_real a = Some x \<Longrightarrow> to_real (fl_neg a) = Some (- x)"
  by (cases a) auto

lemma to_real_sub: "to_real a = Some x \<Longrightarrow> to_real b = Some y \<Longrightarrow> to_real (fl_sub a b) = Some (x - y)"
  using to_real_add [OF _ to_real_neg, of a x b y] by (simp add: fl_sub_def)

lemma to_real_mul: "to_real a = Some x \<Longrightarrow> to_real b = Some y \<Longrightarrow> to_real (fl_mul a b) = Some (x * y)"
  by (cases a; cases b) (auto simp: fl_mul_def zero_of_def)

lemma to_real_div: "to_real a = Some x \<Longrightarrow> to_real b = Some y \<Longrightarrow> y \<noteq> 0 \<Longrightarrow> to_real (fl_div a b) = Some (x / y)"
  by (cases a; cases b) (auto simp: fl_div_def zero_of_def)

lemma to_real_sqrt: "to_real a = Some x \<Longrightarrow> 0 \<le> x \<Longrightarrow> to_real (fl_sqrt a) = Some (sqrt x)"
  by (cases a) auto

lemma to_real_exp: "to_real a = Some x \<Longrightarrow> to_real (fl_exp a) = Some (exp x)"
  by (cases a) auto

lemma to_real_abs: "to_real a = Some x \<Longrightarrow> to_real (fl_abs a) = Some \<bar>x\<bar>"
  by (cases a) auto

lemma to_real_is_zero: "to_real a = Some x \<Longrightarrow> is_zero a = (x = 0)"
  by (cases a) auto

lemma to_real_not_nan: "to_real a = Some x \<Longrightarrow> \<not> is_nan a"
  by (cases a) auto

lemma to_real_less: "to_real a = Some x \<Longrightarrow> to_real b = Some y \<Longrightarrow> fl_less a b = (x < y)"
  by (cases a; cases b) auto

lemma reads_py [simp]: "reads (py x) y = (x = y)"
  by (simp add: reads_def py_def)

lemma reads_add: "reads a x \<Longrightarrow> reads b y \<Longrightarrow> reads (num_add a b) (x + y)"
  by (simp add: reads_def num_add_def to_real_add)

lemma reads_sub: "reads a x \<Longrightarrow> reads b y \<Longrightarrow> reads (num_sub a b) (x - y)"
  by (simp add: reads_def num_sub_def to_real_sub)

lemma reads_mul: "reads a x \<Longrightarrow> reads b y \<Longrightarrow> reads (num_mul a b) (x * y)"
  by (simp add: reads_def num_mul_def to_real_mul)

lemma reads_neg: "reads a x \<Longrightarrow> reads (num_neg a) (- x)"
  by (simp add: reads_def num_neg_def to_real_neg)

lemma reads_abs: "reads a x \<Longrightarrow> reads (py_abs a) \<bar>x\<bar>"
  by (simp add: reads_def py_abs_def to_real_abs)

lemma reads_sqrt: "reads a x \<Longrightarrow> 0 \<le> x \<Longrightarrow> reads (np_sqrt a) (sqrt x)"
  by (simp add: reads_def np_sqrt_def to_real_sqrt)

lemma reads_exp: "reads a x \<Longrightarrow> reads (np_exp a) (exp x)"
  by (simp add: reads_def np_exp_def to_real_exp)

lemma reads_div:
  "reads a x \<Longrightarrow> reads b y \<Longrightarrow> y \<noteq> 0 \<Longrightarrow>
   \<exists>q. num_div a b = Inr q \<and> reads q (x / y)"
  by (simp add: reads_def num_div_def to_real_div to_real_is_zero)

lemma reads_less: "reads a x \<Longrightarrow> reads b y \<Longrightarrow> num_less a b = (x < y)"
  by (simp add: reads_def num_less_def to_real_less)

lemma reads_greater: "reads a x \<Longrightarrow> reads b y \<Longrightarrow> num_greater a b = (y < x)"
  by (simp add: reads_def num_greater_def to_real_less)

lemma reads_not_nan: "reads a x \<Longrightarrow> \<not> np_isnan a"
  by (simp add: reads_def np_isnan_def to_real_not_nan)

lemma fl_sub_Fin [simp]: "fl_sub (Fin a) (Fin b) = Fin (a - b)"
  by (simp add: fl_sub_def)

lemma finite_sub_positive:
  assumes "to_real u = Some x" "to_real v = Some y"
  shows "fl_less (Fin 0) (fl_sub u v) = (y < x)"
  using assms by (cases u; cases v) (auto simp: fl_sub_def)

lemma bindE_Inr [simp]: "bindE (Inr v) f = f v"
  by (simp add: bindE_def)

lemma bindE_Inl [simp]: "bindE (Inl e) f = Inl e"
  by (simp add: bindE_def)

section \<open>The principal branch of Lambert W\<close>

lemma wexp_strict_mono:
  fixes a b :: real
  assumes "- 1 \<le> a" "a < b"
  shows "a * exp a < b * exp b"
proof (rule DERIV_pos_imp_increasing_open [OF \<open>a < b\<close>, of "\<lambda>w. w * exp w"])
  fix x :: real
  assume "a < x" "x < b"
  then have "0 < (1 + x) * exp x"
    using assms by simp
  moreover have "((\<lambda>w. w * exp w) has_real_derivative (1 + x) * exp x) (at x)"
    by (auto intro!: derivative_eq_intros simp: algebra_simps)
  ultimately show "\<exists>y. ((\<lambda>w. w * exp w) has_real_derivative y) (at x) \<and> 0 < y"
    by blast
next
  show "continuous_on {a..b} (\<lambda>w::real. w * exp w)"
    by (intro continuous_intros)
qed

lemma wexp_mono:
  fixes a b :: real
  assumes "- 1 \<le> a" "a \<le> b"
  shows "a * exp a \<le> b * exp b"
  using wexp_strict_mono [of a b] assms by (cases "a = b") auto

lemma wexp_inj:
  fixes a b :: real
  assumes "- 1 \<le> a" "- 1 \<le> b" "a * exp a = b * exp b"
  shows "a = b"
  using wexp_strict_mono [of a b] wexp_strict_mono [of b a] assms
  by (cases a b rule: linorder_cases) auto

lemma wexp_solution:
  fixes x :: real
  assumes "- exp (- 1) \<le> x"
  shows "\<exists>w. - 1 \<le> w \<and> w * exp w = x"
proof (cases "x \<le> 0")
  case True
  have "\<exists>w\<ge>- 1. w \<le> 0 \<and> w * exp w = x"
    using assms True by (intro IVT') (auto intro!: continuous_intros)
  then show ?thesis by blast
next
  case False
  then have "0 < x" by simp
  then have "x * 1 \<le> x * exp x"
    by (intro mult_left_mono) auto
  then have "\<exists>w\<ge>0. w \<le> x \<and> w * exp w = x"
    using \<open>0 < x\<close> by (intro IVT') (auto intro!: continuous_intros)
  then obtain w where "0 \<le> w" "w * exp w = x" by blast
  then show ?thesis by (intro exI [of _ w]) auto
qed

lemma W0_unique:
  assumes "- 1 \<le> w" "w * exp w = x"
  shows "W0 x = w"
  unfolding W0_def
  using assms wexp_inj by (intro the_equality) auto

lemma W0_principal:
  assumes "- exp (- 1) \<le> x"
  shows "- 1 \<le> W0 x \<and> W0 x * exp (W0 x) = x"
proof -
  obtain w where "- 1 \<le> w" "w * exp w = x"
    using wexp_solution [OF assms] by blast
  then show ?thesis
    using W0_unique [of w x] by simp
qed

lemma W0_zero [simp]: "W0 0 = 0"
  by (rule W0_unique) auto

lemma W0_branch_point [simp]: "W0 (- exp (- 1)) = - 1"
  by (rule W0_unique) auto

lemma W0_arg_range:
  fixes phi :: real
  assumes "1 \<le> phi"
  shows "- exp (- 1) \<le> - exp (- phi)" "- exp (- phi) < 0"
  using assms by auto

text \<open>For \<open>\<phi> \<ge> 1\<close> the bracket \<open>\<phi> + W0 (- exp (- \<phi>))\<close> of the threshold formula.\<close>

lemma W0_bracket:
  fixes phi :: real
  assumes "1 \<le> phi"
  defines "w \<equiv> W0 (- exp (- phi))"
  shows "- 1 \<le> w" "w < 0" "phi + w = - ln (- w)" "phi - 1 \<le> phi + w"
    "1 < phi \<Longrightarrow> phi - 1 < phi + w"
proof -
  have p: "- 1 \<le> w" "w * exp w = - exp (- phi)"
    using W0_principal [of "- exp (- phi)"] W0_arg_range [OF assms(1)] by (auto simp: w_def)
  show "- 1 \<le> w" by fact
  have "w * exp w < 0" using p by simp
  then show neg: "w < 0"
    by (simp add: mult_less_0_iff)
  have "ln ((- w) * exp w) = ln (- w) + ln (exp w)"
    using neg by (intro ln_mult_pos) auto
  moreover have "(- w) * exp w = exp (- phi)"
    using p by simp
  ultimately have "ln (- w) + w = - phi"
    by simp
  then show "phi + w = - ln (- w)" by simp
  show "phi - 1 \<le> phi + w" using p by simp
  show "phi - 1 < phi + w" if "1 < phi"
  proof -
    have "w \<noteq> - 1"
    proof
      assume "w = - 1"
      with p have "exp (- 1) = exp (- phi)" by simp
      with that show False by simp
    qed
    with p show ?thesis by simp
  qed
qed

lemma W0_bracket_strict_mono:
  fixes p q :: real
  assumes "1 \<le> p" "p < q"
  shows "p + W0 (- exp (- p)) < q + W0 (- exp (- q))"
proof -
  let ?u = "W0 (- exp (- p))" and ?v = "W0 (- exp (- q))"
  have q1: "1 \<le> q" using assms by simp
  have "?u * exp ?u = - exp (- p)" "?v * exp ?v = - exp (- q)"
    using W0_principal [of "- exp (- p)"] W0_principal [of "- exp (- q)"]
      W0_arg_range [OF assms(1)] W0_arg_range [OF q1] by auto
  then have lt: "?u * exp ?u < ?v * exp ?v"
    using assms by simp
  have "?u < ?v"
  proof (rule ccontr)
    assume "\<not> ?u < ?v"
    then have "?v * exp ?v \<le> ?u * exp ?u"
      using wexp_mono [of ?v ?u] W0_bracket(1) [OF q1] by simp
    with lt show False by simp
  qed
  then have "ln (- ?v) < ln (- ?u)"
    using W0_bracket(2) [OF q1] by simp
  then show ?thesis
    using W0_bracket(3) [OF assms(1)] W0_bracket(3) [OF q1] by simp
qed

lemma to_real_lambertw:
  "to_real a = Some x \<Longrightarrow> - exp (- 1) \<le> x \<Longrightarrow> to_real (lambertw_re a) = Some (W0 x)"
  by (cases a) auto

lemma reads_lambertw:
  "reads a x \<Longrightarrow> - exp (- 1) \<le> x \<Longrightarrow> reads (np_real_lambertw a) (W0 x)"
  by (simp add: reads_def np_real_lambertw_def to_real_lambertw)

section \<open>The threshold on its valid domain\<close>

lemma x_star_try_valid:
  assumes "reads psi p" "reads phi f" "p \<noteq> 0" "1 \<le> f"
  shows "\<exists>x. x_star_try psi phi = Inr x \<and> reads x (1 / p * (f + W0 (- exp (- f))))"
proof -
  obtain inv_psi where i: "num_div (py 1) psi = Inr inv_psi" "reads inv_psi (1 / p)"
    using reads_div [of "py 1" 1 psi p] assms by auto
  have "reads (num_neg (np_exp (num_neg phi))) (- exp (- f))"
    using assms by (intro reads_neg reads_exp)
  then have "reads (np_real_lambertw (num_neg (np_exp (num_neg phi)))) (W0 (- exp (- f)))"
    using assms by (intro reads_lambertw) auto
  then have "reads (num_mul inv_psi
      (num_add phi (np_real_lambertw (num_neg (np_exp (num_neg phi))))))
      (1 / p * (f + W0 (- exp (- f))))"
    using i(2) assms(2) by (intro reads_mul reads_add)
  then show ?thesis
    unfolding x_star_try_def Let_def i(1) bindE_Inr by blast
qed

lemma calculate_optimal_threshold_valid:
  assumes "reads M m" "reads rho r" "reads lambda_val l" "reads sigma s"
    "reads kappa k" "reads tau t"
    and "0 < m" "0 < s" "t < 1" "0 < r + l" "0 \<le> k"
  defines "psi_r \<equiv> sqrt (2 * (r + l)) / s"
    and "C_r \<equiv> k / (1 - t)"
  defines "phi_r \<equiv> 1 + psi_r * (r + l) * C_r / m"
  shows "\<exists>x_star psi phi C_M.
           calculate_optimal_threshold M rho lambda_val sigma kappa tau
             = Inr (x_star, psi, phi, C_M)
           \<and> reads psi psi_r \<and> reads C_M C_r \<and> reads phi phi_r
           \<and> reads x_star (1 / psi_r * (phi_r + W0 (- exp (- phi_r))))"
    and "0 < psi_r" and "1 \<le> phi_r" and "0 < k \<Longrightarrow> 1 < phi_r"
proof -
  show p0: "0 < psi_r" using assms by (simp add: psi_r_def)
  have c0: "0 \<le> C_r" using assms by (simp add: C_r_def)
  have "0 \<le> psi_r * (r + l) * C_r"
    using p0 c0 \<open>0 < r + l\<close> by simp
  then have "0 \<le> psi_r * (r + l) * C_r / m"
    using \<open>0 < m\<close> by simp
  then show f1: "1 \<le> phi_r" unfolding phi_r_def by linarith
  show "1 < phi_r" if "0 < k"
  proof -
    have "0 < C_r" using that assms by (simp add: C_r_def)
    then have "0 < psi_r * (r + l) * C_r" using p0 \<open>0 < r + l\<close> by simp
    then have "0 < psi_r * (r + l) * C_r / m" using \<open>0 < m\<close> by simp
    then show ?thesis unfolding phi_r_def by linarith
  qed
  have "reads (np_sqrt (num_mul (py 2) (num_add rho lambda_val))) (sqrt (2 * (r + l)))"
    using assms by (intro reads_sqrt reads_mul reads_add) auto
  then obtain psi where psi:
    "num_div (np_sqrt (num_mul (py 2) (num_add rho lambda_val))) sigma = Inr psi"
    "reads psi psi_r"
    using reads_div [OF _ \<open>reads sigma s\<close>] assms unfolding psi_r_def by blast
  have "reads (num_sub (py 1) tau) (1 - t)"
    using assms by (intro reads_sub) auto
  then obtain C_M where cm: "num_div kappa (num_sub (py 1) tau) = Inr C_M" "reads C_M C_r"
    using reads_div [OF \<open>reads kappa k\<close>] assms unfolding C_r_def by fastforce
  have "reads (num_mul (num_mul psi (num_add rho lambda_val)) C_M) (psi_r * (r + l) * C_r)"
    using psi cm assms by (intro reads_mul reads_add)
  then obtain q where q:
    "num_div (num_mul (num_mul psi (num_add rho lambda_val)) C_M) M = Inr q"
    "reads q (psi_r * (r + l) * C_r / m)"
    using reads_div [OF _ \<open>reads M m\<close>] assms by fastforce
  have phi: "reads (num_add (py 1) q) phi_r"
    unfolding phi_r_def using q by (intro reads_add) auto
  obtain x where x: "x_star_try psi (num_add (py 1) q) = Inr x"
    "reads x (1 / psi_r * (phi_r + W0 (- exp (- phi_r))))"
    using x_star_try_valid [OF psi(2) phi] p0 f1 by auto
  show "\<exists>x_star psi phi C_M.
           calculate_optimal_threshold M rho lambda_val sigma kappa tau
             = Inr (x_star, psi, phi, C_M)
           \<and> reads psi psi_r \<and> reads C_M C_r \<and> reads phi phi_r
           \<and> reads x_star (1 / psi_r * (phi_r + W0 (- exp (- phi_r))))"
    unfolding calculate_optimal_threshold_def psi(1) cm(1) q(1) bindE_Inr Let_def x(1)
    using psi(2) cm(2) phi x(2) by simp
qed

lemma calculate_npv_threshold_valid:
  assumes "reads M m" "reads rho r" "reads lambda_val l" "reads kappa k" "reads tau t"
    and "m \<noteq> 0" "t \<noteq> 1"
  shows "\<exists>x_npv. calculate_npv_threshold M rho lambda_val kappa tau = Inr x_npv
           \<and> reads x_npv (- (r + l) * (k / (1 - t)) / m)"
proof -
  have "reads (num_sub (py 1) tau) (1 - t)"
    using assms by (intro reads_sub) auto
  then obtain C_M where cm: "num_div kappa (num_sub (py 1) tau) = Inr C_M"
    "reads C_M (k / (1 - t))"
    using reads_div [OF \<open>reads kappa k\<close>] assms by fastforce
  have "reads (num_mul (num_neg (num_add rho lambda_val)) C_M) (- (r + l) * (k / (1 - t)))"
    using cm assms by (intro reads_mul reads_neg reads_add)
  then obtain x where "num_div (num_mul (num_neg (num_add rho lambda_val)) C_M) M = Inr x"
    "reads x (- (r + l) * (k / (1 - t)) / m)"
    using reads_div [OF _ \<open>reads M m\<close> \<open>m \<noteq> 0\<close>] by blast
  then show ?thesis
    unfolding calculate_npv_threshold_def cm(1) bindE_Inr by blast
qed




lemma zero_cost_threshold:
  assumes "reads M m" "reads rho r" "reads lambda_val l" "reads sigma s"
    "reads kappa 0" "reads tau t"
    and "0 < m" "0 < s" "t < 1" "0 < r + l"
  shows "\<not> isl (calculate_optimal_threshold M rho lambda_val sigma kappa tau)"
    and "reads (fst (projr (calculate_optimal_threshold M rho lambda_val sigma kappa tau))) 0"
proof -
  obtain x_star psi phi C_M where
    "calculate_optimal_threshold M rho lambda_val sigma kappa tau = Inr (x_star, psi, phi, C_M)"
    "reads x_star 0"
    using calculate_optimal_threshold_valid(1) [OF assms(1-10)] by auto
  then show "\<not> isl (calculate_optimal_threshold M rho lambda_val sigma kappa tau)"
    and "reads (fst (projr (calculate_optimal_threshold M rho lambda_val sigma kappa tau))) 0"
    by simp_all
qed



lemma threshold_strictly_decreasing:
  assumes "reads M1 m1" "reads M2 m2" "reads rho r" "reads lambda_val l" "reads sigma s"
    "reads kappa k" "reads tau t"
    and "0 < m1" "m1 < m2" "0 < s" "t < 1" "0 < r + l" "0 < k"
  shows "\<exists>x1 psi1 phi1 C1 x2 psi2 phi2 C2 xs1 xs2.
           calculate_optimal_threshold M1 rho lambda_val sigma kappa tau
             = Inr (x1, psi1, phi1, C1)
           \<and> calculate_optimal_threshold M2 rho lambda_val sigma kappa tau
             = Inr (x2, psi2, phi2, C2)
           \<and> reads x1 xs1 \<and> reads x2 xs2 \<and> 0 < xs2 \<and> xs2 < xs1"
proof -
  define psi_r where "psi_r = sqrt (2 * (r + l)) / s"
  define C_r where "C_r = k / (1 - t)"
  define c where "c = psi_r * (r + l) * C_r"
  define f1 where "f1 = 1 + c / m1"
  define f2 where "f2 = 1 + c / m2"
  have k0: "0 \<le> k" and m2: "0 < m2" using assms by simp_all
  note v1 = calculate_optimal_threshold_valid [OF assms(1) assms(3-7) assms(8) assms(10-12) k0,
      folded psi_r_def C_r_def, folded c_def, folded f1_def]
  note v2 = calculate_optimal_threshold_valid [OF assms(2) assms(3-7) m2 assms(10-12) k0,
      folded psi_r_def C_r_def, folded c_def, folded f2_def]
  have p0: "0 < psi_r" by (rule v1)
  have "0 < C_r" using assms by (simp add: C_r_def)
  then have c0: "0 < c" using p0 assms by (simp add: c_def)
  have "c / m2 < c / m1"
    using c0 assms by (simp add: divide_strict_left_mono)
  then have lt: "f2 < f1" by (simp add: f1_def f2_def)
  have g1: "1 < f2" using v2(4) [OF \<open>0 < k\<close>] .
  have "f2 + W0 (- exp (- f2)) < f1 + W0 (- exp (- f1))"
    using W0_bracket_strict_mono [of f2 f1] lt g1 by simp
  then have "1 / psi_r * (f2 + W0 (- exp (- f2))) < 1 / psi_r * (f1 + W0 (- exp (- f1)))"
    using p0 by (simp add: divide_strict_right_mono)
  moreover have "0 < f2 + W0 (- exp (- f2))"
    using W0_bracket(5) [of f2] g1 by simp
  then have "0 < 1 / psi_r * (f2 + W0 (- exp (- f2)))"
    using p0 by simp
  ultimately show ?thesis
    using v1(1) v2(1) by blast
qed

text \<open>
  C3 (amended): with \<open>\<rho>\<close>, \<open>\<lambda>\<close>, \<open>\<sigma>\<close>, \<open>\<tau>\<close> and a positive dollar cost \<open>\<kappa>\<close> held fixed, the
  threshold magnitude is strictly decreasing in the balance: for \<open>0 < M1 < M2\<close>,
  \<open>|x*(M2)| < |x*(M1)|\<close>.
\<close>

theorem threshold_decreasing_in_balance:
  assumes "reads M1 m1" "reads M2 m2" "reads rho r" "reads lambda_val l" "reads sigma s"
    "reads kappa k" "reads tau t"
    and "0 < m1" "m1 < m2" "0 < s" "t < 1" "0 < r + l" "0 < k"
  shows "\<exists>x1 psi1 phi1 C1 x2 psi2 phi2 C2 xs1 xs2.
           calculate_optimal_threshold M1 rho lambda_val sigma kappa tau
             = Inr (x1, psi1, phi1, C1)
           \<and> calculate_optimal_threshold M2 rho lambda_val sigma kappa tau
             = Inr (x2, psi2, phi2, C2)
           \<and> reads x1 xs1 \<and> reads x2 xs2 \<and> \<bar>xs2\<bar> < \<bar>xs1\<bar>"
proof -
  obtain x1 psi1 phi1 C1 x2 psi2 phi2 C2 xs1 xs2 where
    "calculate_optimal_threshold M1 rho lambda_val sigma kappa tau = Inr (x1, psi1, phi1, C1)"
    "calculate_optimal_threshold M2 rho lambda_val sigma kappa tau = Inr (x2, psi2, phi2, C2)"
    "reads x1 xs1" "reads x2 xs2" "0 < xs2" "xs2 < xs1"
    using threshold_strictly_decreasing [OF assms] by blast
  moreover from this have "\<bar>xs2\<bar> < \<bar>xs1\<bar>" by simp
  ultimately show ?thesis by blast
qed

theorem threshold_decreasing_in_balance_witness:
  "\<exists>x1 psi1 phi1 C1 x2 psi2 phi2 C2 xs1 xs2.
           calculate_optimal_threshold (py 100000) (py (5 / 100)) (py (13 / 100))
               (py (109 / 10000)) (py 2000) (py (28 / 100))
             = Inr (x1, psi1, phi1, C1)
           \<and> calculate_optimal_threshold (py 200000) (py (5 / 100)) (py (13 / 100))
               (py (109 / 10000)) (py 2000) (py (28 / 100))
             = Inr (x2, psi2, phi2, C2)
           \<and> reads x1 xs1 \<and> reads x2 xs2 \<and> \<bar>xs2\<bar> < \<bar>xs1\<bar>"
  by (rule threshold_decreasing_in_balance [where ?m1.0 = 100000 and ?m2.0 = 200000
        and r = "5 / 100" and l = "13 / 100" and s = "109 / 10000" and t = "28 / 100"
        and k = 2000]) simp_all

text \<open>
  With zero cost the threshold is 0 at every balance, so it does not strictly decrease.
\<close>

theorem threshold_decreasing_zero_cost_counterexample:
  "\<not> isl (calculate_optimal_threshold (py 100000) (py (5 / 100)) (py (13 / 100))
             (py (109 / 10000)) (py 0) (py (28 / 100)))
   \<and> \<not> isl (calculate_optimal_threshold (py 200000) (py (5 / 100)) (py (13 / 100))
             (py (109 / 10000)) (py 0) (py (28 / 100)))
   \<and> reads (fst (projr (calculate_optimal_threshold (py 100000) (py (5 / 100))
             (py (13 / 100)) (py (109 / 10000)) (py 0) (py (28 / 100))))) 0
   \<and> reads (fst (projr (calculate_optimal_threshold (py 200000) (py (5 / 100))
             (py (13 / 100)) (py (109 / 10000)) (py 0) (py (28 / 100))))) 0
   \<and> \<not> \<bar>the (to_real (val (fst (projr (calculate_optimal_threshold (py 200000)
             (py (5 / 100)) (py (13 / 100)) (py (109 / 10000)) (py 0) (py (28 / 100)))))))\<bar>
        < \<bar>the (to_real (val (fst (projr (calculate_optimal_threshold (py 100000)
             (py (5 / 100)) (py (13 / 100)) (py (109 / 10000)) (py 0) (py (28 / 100)))))))\<bar>"
proof -
  have a: "\<not> isl (calculate_optimal_threshold (py 100000) (py (5 / 100)) (py (13 / 100))
             (py (109 / 10000)) (py 0) (py (28 / 100)))"
    and b: "reads (fst (projr (calculate_optimal_threshold (py 100000) (py (5 / 100))
             (py (13 / 100)) (py (109 / 10000)) (py 0) (py (28 / 100))))) 0"
    by (rule zero_cost_threshold [where m = 100000 and r = "5 / 100" and l = "13 / 100"
          and s = "109 / 10000" and t = "28 / 100"]; simp)+
  have c: "\<not> isl (calculate_optimal_threshold (py 200000) (py (5 / 100)) (py (13 / 100))
             (py (109 / 10000)) (py 0) (py (28 / 100)))"
    and d: "reads (fst (projr (calculate_optimal_threshold (py 200000) (py (5 / 100))
             (py (13 / 100)) (py (109 / 10000)) (py 0) (py (28 / 100))))) 0"
    by (rule zero_cost_threshold [where m = 200000 and r = "5 / 100" and l = "13 / 100"
          and s = "109 / 10000" and t = "28 / 100"]; simp)+
  show ?thesis
    using a b c d by (simp add: reads_def)
qed
section \<open>Exceptions and NumPy scalars in the threshold solver\<close>

lemma is_np_simps [simp]:
  "is_np (py x) = False"
  "is_np (num_add a b) = (is_np a \<or> is_np b)"
  "is_np (num_sub a b) = (is_np a \<or> is_np b)"
  "is_np (num_mul a b) = (is_np a \<or> is_np b)"
  "is_np (num_neg a) = is_np a"
  "is_np (py_abs a) = is_np a"
  "is_np (np_sqrt a) = True"
  "is_np (np_exp a) = True"
  "is_np (np_real_lambertw a) = True"
  by (simp_all add: py_def num_add_def num_sub_def num_mul_def num_neg_def py_abs_def
      np_sqrt_def np_exp_def np_real_lambertw_def)

lemma num_div_numpy:
  "is_np a \<or> is_np b \<Longrightarrow> num_div a b = Inr (Num True (fl_div (val a) (val b)))"
  by (auto simp: num_div_def)

lemma num_div_python_zero:
  "\<not> is_np a \<Longrightarrow> \<not> is_np b \<Longrightarrow> is_zero (val b) \<Longrightarrow> num_div a b = Inl ZeroDivisionError"
  by (simp add: num_div_def)

lemma num_div_nonzero:
  "\<not> is_zero (val b) \<Longrightarrow> num_div a b = Inr (Num (is_np a \<or> is_np b) (fl_div (val a) (val b)))"
  by (simp add: num_div_def)

lemma reads_nonzero_val: "reads a x \<Longrightarrow> x \<noteq> 0 \<Longrightarrow> val a = Fin x"
  using to_real_cases [of "val a" x] by (auto simp: reads_def)

lemma reads_is_zero: "reads a x \<Longrightarrow> is_zero (val a) = (x = 0)"
  by (simp add: reads_def to_real_is_zero)

lemma calculate_lambda_returns: "\<exists>lam. calculate_lambda mu i0 Gamma pi_infl = Inr lam"
  by (simp add: calculate_lambda_def num_div_numpy)

lemma normalize_returns:
  "\<exists>c. (if num_greater r (py 1) then num_div r (py 100) else Inr r) = Inr c"
  by (simp add: num_div_nonzero py_def)

lemma calculate_optimal_threshold_raises:
  "calculate_optimal_threshold M rho lambda_val sigma kappa tau = Inl e \<longleftrightarrow>
     \<not> is_np kappa \<and> \<not> is_np tau \<and> is_zero (val (num_sub (py 1) tau)) \<and> e = ZeroDivisionError"
  by (auto simp: calculate_optimal_threshold_def num_div_numpy num_div_def Let_def)

lemma calculate_square_root_approximation_raises:
  "calculate_square_root_approximation M rho lambda_val sigma kappa tau = Inl e \<longleftrightarrow>
     \<not> is_np kappa \<and> \<not> is_np M \<and> \<not> is_np tau
     \<and> is_zero (val (num_mul M (num_sub (py 1) tau))) \<and> e = ZeroDivisionError"
  by (auto simp: calculate_square_root_approximation_def num_div_def Let_def)

lemma calculate_npv_threshold_raises:
  "calculate_npv_threshold M rho lambda_val kappa tau = Inl e \<longleftrightarrow>
     \<not> is_np kappa \<and> \<not> is_np tau \<and> e = ZeroDivisionError
     \<and> (is_zero (val (num_sub (py 1) tau))
        \<or> (\<not> is_np rho \<and> \<not> is_np lambda_val \<and> \<not> is_np M \<and> is_zero (val M)))"
  by (auto simp: calculate_npv_threshold_def num_div_def)


section \<open>Normalisation of the current rate\<close>

lemma calculate_trigger_rate_current_rate:
  assumes "calculate_trigger_rate r M y d v t f p mu infl = Inr res"
  shows "(if num_greater r (py 1) then num_div r (py 100) else Inr r)
           = Inr (r_current_rate res)"
  using assms unfolding calculate_trigger_rate_def
  by (auto simp: bindE_def Let_def split: sum.splits prod.splits if_splits)

lemma calculate_trigger_rate_returns:
  assumes "reads M m" "m \<noteq> 0" "reads t tt" "tt \<noteq> 1"
  shows "\<exists>res. calculate_trigger_rate r M y d v t f p mu infl = Inr res"
proof -
  obtain c where c: "(if num_greater r (py 1) then num_div r (py 100) else Inr r) = Inr c"
    using normalize_returns by blast
  obtain lam where lam: "calculate_lambda mu c y infl = Inr lam"
    using calculate_lambda_returns by blast
  let ?k = "calculate_kappa M p f t"
  have "reads (num_sub (py 1) t) (1 - tt)"
    using assms by (intro reads_sub) auto
  then have z1: "\<not> is_zero (val (num_sub (py 1) t))"
    using assms by (simp add: reads_is_zero)
  have "reads (num_mul M (num_sub (py 1) t)) (m * (1 - tt))"
    using assms by (intro reads_mul reads_sub) auto
  then have z2: "\<not> is_zero (val (num_mul M (num_sub (py 1) t)))"
    using assms by (simp add: reads_is_zero)
  have z3: "\<not> is_zero (val M)"
    using assms by (simp add: reads_is_zero)
  obtain o1 where o1: "calculate_optimal_threshold M d lam v ?k t = Inr o1"
    using calculate_optimal_threshold_raises [of M d lam v ?k t] z1
    by (cases "calculate_optimal_threshold M d lam v ?k t") auto
  obtain o2 where o2: "calculate_square_root_approximation M d lam v ?k t = Inr o2"
    using calculate_square_root_approximation_raises [of M d lam v ?k t] z2
    by (cases "calculate_square_root_approximation M d lam v ?k t") auto
  obtain o3 where o3: "calculate_npv_threshold M d lam ?k t = Inr o3"
    using calculate_npv_threshold_raises [of M d lam ?k t] z1 z3
    by (cases "calculate_npv_threshold M d lam ?k t") auto
  show ?thesis
    unfolding calculate_trigger_rate_def c lam o1 o2 o3 bindE_Inr Let_def
    by (cases o1) simp
qed

text \<open>
  C9 (amended): \<open>calculate_trigger_rate\<close> divides a \<open>current_rate\<close> above 1 by 100 once,
  before any computation. For \<open>1 < r \<le> 100\<close> it therefore returns the same result as for
  \<open>r/100\<close>; for every \<open>r > 1\<close> the rate it works with (and reports) is \<open>r/100\<close>; a rate
  \<open>r \<le> 1\<close> is used unchanged.
\<close>

theorem calculate_trigger_rate_normalizes:
  assumes "reads r x"
  shows "(1 < x \<and> x \<le> 100 \<longrightarrow>
            (\<exists>r'. num_div r (py 100) = Inr r' \<and> reads r' (x / 100)
               \<and> calculate_trigger_rate r M y d v t f p mu infl
                 = calculate_trigger_rate r' M y d v t f p mu infl))
       \<and> (1 < x \<longrightarrow>
            (\<forall>res. calculate_trigger_rate r M y d v t f p mu infl = Inr res
               \<longrightarrow> reads (r_current_rate res) (x / 100)))
       \<and> (x \<le> 1 \<longrightarrow>
            (\<forall>res. calculate_trigger_rate r M y d v t f p mu infl = Inr res
               \<longrightarrow> r_current_rate res = r))"
proof (intro conjI impI allI)
  assume h: "1 < x \<and> x \<le> 100"
  obtain r' where r': "num_div r (py 100) = Inr r'" "reads r' (x / 100)"
    using reads_div [OF assms, of "py 100" 100] by auto
  have g: "num_greater r (py 1)" "\<not> num_greater r' (py 1)"
    using h assms r' by (simp_all add: reads_greater [where y = 1])
  have "calculate_trigger_rate r M y d v t f p mu infl
          = calculate_trigger_rate r' M y d v t f p mu infl"
    unfolding calculate_trigger_rate_def using g r' by simp
  with r' show "\<exists>r'. num_div r (py 100) = Inr r' \<and> reads r' (x / 100)
               \<and> calculate_trigger_rate r M y d v t f p mu infl
                 = calculate_trigger_rate r' M y d v t f p mu infl"
    by blast
next
  fix res
  assume h: "1 < x" and e: "calculate_trigger_rate r M y d v t f p mu infl = Inr res"
  obtain r' where r': "num_div r (py 100) = Inr r'" "reads r' (x / 100)"
    using reads_div [OF assms, of "py 100" 100] by auto
  have "num_greater r (py 1)"
    using h assms by (simp add: reads_greater [where y = 1])
  then show "reads (r_current_rate res) (x / 100)"
    using calculate_trigger_rate_current_rate [OF e] r' by simp
next
  fix res
  assume h: "x \<le> 1" and e: "calculate_trigger_rate r M y d v t f p mu infl = Inr res"
  have "\<not> num_greater r (py 1)"
    using h assms by (simp add: reads_greater [where y = 1])
  then show "r_current_rate res = r"
    using calculate_trigger_rate_current_rate [OF e] by simp
qed

theorem calculate_trigger_rate_normalizes_witness:
  "(\<exists>r'. num_div (py (65 / 10)) (py 100) = Inr r' \<and> reads r' (65 / 10 / 100)
       \<and> calculate_trigger_rate (py (65 / 10)) (py 400000) (py 25) (py (5 / 100))
            (py (109 / 10000)) (py (28 / 100)) (py 2000) (py (1 / 100)) (py (10 / 100))
            (py (3 / 100))
         = calculate_trigger_rate r' (py 400000) (py 25) (py (5 / 100))
            (py (109 / 10000)) (py (28 / 100)) (py 2000) (py (1 / 100)) (py (10 / 100))
            (py (3 / 100)))
   \<and> \<not> isl (calculate_trigger_rate (py (1 / 2)) (py 400000) (py 25) (py (5 / 100))
            (py (109 / 10000)) (py (28 / 100)) (py 2000) (py (1 / 100)) (py (10 / 100))
            (py (3 / 100)))
   \<and> r_current_rate (projr (calculate_trigger_rate (py (1 / 2)) (py 400000) (py 25)
            (py (5 / 100)) (py (109 / 10000)) (py (28 / 100)) (py 2000) (py (1 / 100))
            (py (10 / 100)) (py (3 / 100)))) = py (1 / 2)"
proof -
  have h: "reads (py 400000) 400000" "(400000::real) \<noteq> 0"
    "reads (py (28 / 100)) (28 / 100)" "(28 / 100 :: real) \<noteq> 1"
    by simp_all
  obtain res where res: "calculate_trigger_rate (py (1 / 2)) (py 400000) (py 25)
      (py (5 / 100)) (py (109 / 10000)) (py (28 / 100)) (py 2000) (py (1 / 100))
      (py (10 / 100)) (py (3 / 100)) = Inr res"
    using calculate_trigger_rate_returns [OF h] by blast
  have a: "reads (py (65 / 10)) (65 / 10)" and b: "reads (py (1 / 2)) (1 / 2)"
    by simp_all
  have "r_current_rate res = py (1 / 2)"
    using calculate_trigger_rate_normalizes [OF b, of "py 400000" "py 25" "py (5 / 100)"
        "py (109 / 10000)" "py (28 / 100)" "py 2000" "py (1 / 100)" "py (10 / 100)"
        "py (3 / 100)"] res
    by simp
  moreover have "\<exists>r'. num_div (py (65 / 10)) (py 100) = Inr r' \<and> reads r' (65 / 10 / 100)
       \<and> calculate_trigger_rate (py (65 / 10)) (py 400000) (py 25) (py (5 / 100))
            (py (109 / 10000)) (py (28 / 100)) (py 2000) (py (1 / 100)) (py (10 / 100))
            (py (3 / 100))
         = calculate_trigger_rate r' (py 400000) (py 25) (py (5 / 100))
            (py (109 / 10000)) (py (28 / 100)) (py 2000) (py (1 / 100)) (py (10 / 100))
            (py (3 / 100))"
    using calculate_trigger_rate_normalizes [OF a, of "py 400000" "py 25" "py (5 / 100)"
        "py (109 / 10000)" "py (28 / 100)" "py 2000" "py (1 / 100)" "py (10 / 100)"
        "py (3 / 100)"]
    by simp
  ultimately show ?thesis
    using res by simp
qed

text \<open>
  Above 100 the two calls differ: 200 is read as 200 percent, that is 2.0, while the call
  with 2.0 divides once more and works with 0.02.
\<close>

theorem calculate_trigger_rate_percent_counterexample:
  "num_div (py 200) (py 100) = Inr (py 2)
   \<and> calculate_trigger_rate (py 200) (py 400000) (py 25) (py (5 / 100))
        (py (109 / 10000)) (py (28 / 100)) (py 2000) (py (1 / 100)) (py (10 / 100))
        (py (3 / 100))
     \<noteq> calculate_trigger_rate (py 2) (py 400000) (py 25) (py (5 / 100))
        (py (109 / 10000)) (py (28 / 100)) (py 2000) (py (1 / 100)) (py (10 / 100))
        (py (3 / 100))"
proof
  show "num_div (py 200) (py 100) = Inr (py 2)"
    by (simp add: num_div_def py_def fl_div_def)
  let ?A = "calculate_trigger_rate (py 200) (py 400000) (py 25) (py (5 / 100))
        (py (109 / 10000)) (py (28 / 100)) (py 2000) (py (1 / 100)) (py (10 / 100))
        (py (3 / 100))"
  let ?B = "calculate_trigger_rate (py 2) (py 400000) (py 25) (py (5 / 100))
        (py (109 / 10000)) (py (28 / 100)) (py 2000) (py (1 / 100)) (py (10 / 100))
        (py (3 / 100))"
  have h: "reads (py 400000) 400000" "(400000::real) \<noteq> 0"
    "reads (py (28 / 100)) (28 / 100)" "(28 / 100 :: real) \<noteq> 1"
    by simp_all
  obtain res where a: "?A = Inr res"
    using calculate_trigger_rate_returns [OF h] by blast
  have "Inr (r_current_rate res) = Inr (py 2)"
    using calculate_trigger_rate_current_rate [OF a]
    by (simp add: num_greater_def num_div_def py_def fl_div_def)
  then have ca: "r_current_rate res = py 2" by simp
  show "?A \<noteq> ?B"
  proof
    assume "?A = ?B"
    then have b: "?B = Inr res" using a by simp
    have "Inr (r_current_rate res) = Inr (py (2 / 100))"
      using calculate_trigger_rate_current_rate [OF b]
      by (simp add: num_greater_def num_div_def py_def fl_div_def)
    with ca show False by (simp add: py_def)
  qed
qed

section \<open>A zero balance\<close>

lemma reads_div_val:
  assumes "reads a x" "reads b y" "y \<noteq> 0"
  shows "num_div a b = Inr (Num (is_np a \<or> is_np b) (fl_div (val a) (val b)))"
    and "reads (Num (is_np a \<or> is_np b) (fl_div (val a) (val b))) (x / y)"
  using assms by (simp_all add: num_div_nonzero reads_is_zero reads_def to_real_div)

lemma x_star_try_infinite_phi:
  assumes "reads psi p" "0 < p"
  shows "x_star_try psi (Num True PInf) = Inr (Num True PInf)"
proof -
  have v: "val psi = Fin p"
    using reads_nonzero_val [OF assms(1)] assms(2) by simp
  show ?thesis
    using assms(2)
    by (simp add: x_star_try_def Let_def num_div_nonzero v num_neg_def np_exp_def
        np_real_lambertw_def num_add_def num_mul_def py_def fl_div_def fl_mul_def inf_of_def)
qed

lemma calculate_optimal_threshold_zero_balance:
  assumes "val M = Fin 0" "reads rho r" "reads lambda_val l" "reads sigma s"
    "reads kappa k" "reads tau t"
    and "0 < s" "t < 1" "0 < r + l" "0 < k"
  shows "\<exists>psi C_M. calculate_optimal_threshold M rho lambda_val sigma kappa tau
           = Inr (Num True PInf, psi, Num True PInf, C_M)"
proof -
  define psi_r where "psi_r = sqrt (2 * (r + l)) / s"
  define C_r where "C_r = k / (1 - t)"
  have p0: "0 < psi_r" using assms by (simp add: psi_r_def)
  have c0: "0 < C_r" using assms by (simp add: C_r_def)
  have "reads (np_sqrt (num_mul (py 2) (num_add rho lambda_val))) (sqrt (2 * (r + l)))"
    using assms by (intro reads_sqrt reads_mul reads_add) auto
  then obtain psi where psi:
    "num_div (np_sqrt (num_mul (py 2) (num_add rho lambda_val))) sigma = Inr psi"
    "reads psi psi_r"
    using reads_div [OF _ \<open>reads sigma s\<close>] assms unfolding psi_r_def by blast
  have np: "is_np psi"
    using psi(1) by (auto simp: num_div_numpy)
  have "reads (num_sub (py 1) tau) (1 - t)"
    using assms by (intro reads_sub) auto
  then obtain C_M where cm: "num_div kappa (num_sub (py 1) tau) = Inr C_M" "reads C_M C_r"
    using reads_div [OF \<open>reads kappa k\<close>] assms unfolding C_r_def by fastforce
  let ?n = "num_mul (num_mul psi (num_add rho lambda_val)) C_M"
  define nr where "nr = psi_r * (r + l) * C_r"
  have n: "reads ?n nr"
    unfolding nr_def using psi cm assms by (intro reads_mul reads_add)
  have pos: "0 < nr"
    unfolding nr_def using p0 c0 assms by simp
  then have "nr \<noteq> 0" by simp
  then have "val ?n = Fin nr"
    by (rule reads_nonzero_val [OF n])
  then have "fl_div (val ?n) (val M) = PInf"
    using pos assms(1) by (simp add: fl_div_def inf_of_def)
  then have q: "num_div ?n M = Inr (Num True PInf)"
    using np by (simp add: num_div_numpy)
  have phi: "num_add (py 1) (Num True PInf) = Num True PInf"
    by (simp add: num_add_def py_def)
  show ?thesis
    unfolding calculate_optimal_threshold_def psi(1) cm(1) q bindE_Inr Let_def phi
      x_star_try_infinite_phi [OF psi(2) p0]
    by simp
qed

lemma calculate_trigger_rate_zero_balance:
  assumes "is_zero (val M)" "\<not> is_np M" "\<not> is_np t" "\<not> is_np f" "\<not> is_np p"
    and "reads t tt"
  shows "calculate_trigger_rate r M y d v t f p mu infl = Inl ZeroDivisionError"
proof -
  obtain c where c: "(if num_greater r (py 1) then num_div r (py 100) else Inr r) = Inr c"
    using normalize_returns by blast
  obtain lam where lam: "calculate_lambda mu c y infl = Inr lam"
    using calculate_lambda_returns by blast
  let ?k = "calculate_kappa M p f t"
  have k: "\<not> is_np ?k"
    using assms by (simp add: calculate_kappa_def)
  have "reads (num_sub (py 1) t) (1 - tt)"
    using assms by (intro reads_sub) auto
  then have "is_zero (val (num_mul M (num_sub (py 1) t)))"
    using assms(1) by (cases "val M") (auto simp: num_mul_def fl_mul_def zero_of_def reads_def
        to_real_not_nan dest!: to_real_cases)
  then have sq: "calculate_square_root_approximation M d lam v ?k t = Inl ZeroDivisionError"
    using calculate_square_root_approximation_raises [of M d lam v ?k t ZeroDivisionError]
      k assms by simp
  show ?thesis
  proof (cases "calculate_optimal_threshold M d lam v ?k t")
    case (Inl e)
    then have "e = ZeroDivisionError"
      using calculate_optimal_threshold_raises [of M d lam v ?k t e] by simp
    with Inl show ?thesis
      unfolding calculate_trigger_rate_def c lam bindE_Inr Let_def by simp
  next
    case (Inr o1)
    then show ?thesis
      unfolding calculate_trigger_rate_def c lam bindE_Inr Let_def sq
      by (cases o1) simp
  qed
qed

text \<open>
  With \<open>M = 0\<close> and the default parameters \<open>calculate_optimal_threshold\<close> returns
  \<open>x* = +\<infinity>\<close>, and \<open>calculate_trigger_rate\<close> raises \<open>ZeroDivisionError\<close> (in
  \<open>calculate_square_root_approximation\<close>, which divides two Python floats).
\<close>

lemma zero_balance_example:
  "calculate_trigger_rate (py (65 / 1000)) (py 0) (py 25) (py (5 / 100)) (py (109 / 10000))
      (py (28 / 100)) (py 2000) (py (1 / 100)) (py (10 / 100)) (py (3 / 100))
     = Inl ZeroDivisionError
   \<and> \<not> isl (calculate_optimal_threshold (py 0) (py (5 / 100)) (py (13 / 100))
              (py (109 / 10000)) (py 2000) (py (28 / 100)))
   \<and> fst (projr (calculate_optimal_threshold (py 0) (py (5 / 100)) (py (13 / 100))
              (py (109 / 10000)) (py 2000) (py (28 / 100)))) = Num True PInf
   \<and> \<not> np_isnan (fst (projr (calculate_optimal_threshold (py 0) (py (5 / 100))
              (py (13 / 100)) (py (109 / 10000)) (py 2000) (py (28 / 100)))))"
proof -
  have "calculate_trigger_rate (py (65 / 1000)) (py 0) (py 25) (py (5 / 100))
      (py (109 / 10000)) (py (28 / 100)) (py 2000) (py (1 / 100)) (py (10 / 100))
      (py (3 / 100)) = Inl ZeroDivisionError"
    by (rule calculate_trigger_rate_zero_balance [where tt = "28 / 100"])
       (simp_all add: py_def reads_def)
  moreover obtain psi C_M where
    "calculate_optimal_threshold (py 0) (py (5 / 100)) (py (13 / 100))
       (py (109 / 10000)) (py 2000) (py (28 / 100)) = Inr (Num True PInf, psi, Num True PInf, C_M)"
    using calculate_optimal_threshold_zero_balance [where M = "py 0" and rho = "py (5 / 100)"
        and lambda_val = "py (13 / 100)" and sigma = "py (109 / 10000)" and kappa = "py 2000"
        and tau = "py (28 / 100)" and r = "5 / 100" and l = "13 / 100" and s = "109 / 10000"
        and k = 2000 and t = "28 / 100"]
    by (auto simp: py_def reads_def)
  ultimately show ?thesis
    by (simp add: np_isnan_def)
qed


section \<open>A zero volatility, and a Lambert-W argument below the branch point\<close>

text \<open>A zero volatility: the exact threshold is NaN whenever the function returns.\<close>

lemma fl_div_by_zero: "is_zero b \<Longrightarrow> is_inf (fl_div a b) \<or> is_nan (fl_div a b)"
  by (cases a; cases b) (auto simp: fl_div_def inf_of_def Let_def)

lemma fl_mul_nonfinite:
  "is_inf a \<or> is_nan a \<Longrightarrow> is_inf (fl_mul a b) \<or> is_nan (fl_mul a b)"
  by (cases a; cases b) (auto simp: fl_mul_def inf_of_def Let_def)

lemma fl_div_nonfinite:
  "is_inf a \<or> is_nan a \<Longrightarrow> is_inf (fl_div a b) \<or> is_nan (fl_div a b)"
  by (cases a; cases b) (auto simp: fl_div_def inf_of_def Let_def)

lemma fl_add_nonfinite:
  "is_inf b \<or> is_nan b \<Longrightarrow> is_inf (fl_add a b) \<or> is_nan (fl_add a b)"
  by (cases a; cases b) auto

lemma x_star_try_nonfinite:
  assumes "is_inf (val psi) \<or> is_nan (val psi)" "is_inf (val phi) \<or> is_nan (val phi)"
  shows "\<exists>x. x_star_try psi phi = Inr x \<and> np_isnan x"
proof -
  have "\<not> is_zero (val psi)"
    using assms(1) by (cases "val psi") auto
  then have d: "num_div (py 1) psi = Inr (Num (is_np psi) (fl_div (Fin 1) (val psi)))"
    by (simp add: num_div_nonzero py_def)
  have "is_nan (fl_mul (fl_div (Fin 1) (val psi))
                  (fl_add (val phi) (lambertw_re (fl_neg (fl_exp (fl_neg (val phi)))))))"
    using assms by (cases "val psi"; cases "val phi")
      (auto simp: fl_div_def fl_mul_def zero_of_def inf_of_def Let_def)
  then show ?thesis
    unfolding x_star_try_def Let_def d bindE_Inr
    by (simp add: np_isnan_def num_mul_def num_add_def num_neg_def np_exp_def
        np_real_lambertw_def)
qed

lemma zero_volatility_gives_nan:
  assumes "is_zero (val sigma)"
    and "calculate_optimal_threshold M rho lambda_val sigma kappa tau
           = Inr (x_star, psi, phi, C_M)"
  shows "np_isnan x_star"
proof -
  let ?psi = "Num True (fl_div (val (np_sqrt (num_mul (py 2) (num_add rho lambda_val))))
                 (val sigma))"
  have psi: "num_div (np_sqrt (num_mul (py 2) (num_add rho lambda_val))) sigma = Inr ?psi"
    by (simp add: num_div_numpy)
  have nf: "is_inf (val ?psi) \<or> is_nan (val ?psi)"
    using fl_div_by_zero [OF assms(1)] by simp
  obtain C where C: "num_div kappa (num_sub (py 1) tau) = Inr C"
    using assms(2) unfolding calculate_optimal_threshold_def psi bindE_Inr
    by (cases "num_div kappa (num_sub (py 1) tau)") simp_all
  let ?n = "num_mul (num_mul ?psi (num_add rho lambda_val)) C"
  let ?q = "Num True (fl_div (val ?n) (val M))"
  have q: "num_div ?n M = Inr ?q"
    by (simp add: num_div_numpy)
  have "is_inf (val ?n) \<or> is_nan (val ?n)"
    using fl_mul_nonfinite [OF fl_mul_nonfinite [OF nf]] by (simp add: num_mul_def)
  then have "is_inf (val ?q) \<or> is_nan (val ?q)"
    using fl_div_nonfinite by simp
  then have phi: "is_inf (val (num_add (py 1) ?q)) \<or> is_nan (val (num_add (py 1) ?q))"
    using fl_add_nonfinite by (simp add: num_add_def)
  obtain x where x: "x_star_try ?psi (num_add (py 1) ?q) = Inr x" "np_isnan x"
    using x_star_try_nonfinite [OF nf phi] by blast
  have "calculate_optimal_threshold M rho lambda_val sigma kappa tau
          = Inr (x, ?psi, num_add (py 1) ?q, C)"
    unfolding calculate_optimal_threshold_def psi C q bindE_Inr Let_def x(1) by simp
  with assms(2) x(2) show ?thesis by simp
qed

lemma to_real_lambertw_any:
  "to_real a = Some x \<Longrightarrow>
   to_real (lambertw_re a) = Some (if x < - exp (- 1) then Re (W0_cut x) else W0 x)"
  by (cases a) auto

lemma reads_lambertw_any:
  "reads a x \<Longrightarrow>
   reads (np_real_lambertw a) (if x < - exp (- 1) then Re (W0_cut x) else W0 x)"
  by (simp add: reads_def np_real_lambertw_def to_real_lambertw_any)

text \<open>On finite inputs the result is finite even where Lambert W has no real value.\<close>

lemma x_star_try_finite:
  assumes "reads psi p" "reads phi f" "p \<noteq> 0"
  shows "\<exists>x. x_star_try psi phi = Inr x
           \<and> reads x (1 / p * (f + (if f < 1 then Re (W0_cut (- exp (- f)))
                                    else W0 (- exp (- f)))))"
proof -
  obtain inv_psi where i: "num_div (py 1) psi = Inr inv_psi" "reads inv_psi (1 / p)"
    using reads_div [of "py 1" 1 psi p] assms by auto
  have "reads (num_neg (np_exp (num_neg phi))) (- exp (- f))"
    using assms by (intro reads_neg reads_exp)
  then have "reads (np_real_lambertw (num_neg (np_exp (num_neg phi))))
      (if - exp (- f) < - exp (- 1) then Re (W0_cut (- exp (- f))) else W0 (- exp (- f)))"
    by (rule reads_lambertw_any)
  moreover have "(- exp (- f) < - exp (- 1)) = (f < 1)"
    by simp
  ultimately have "reads (np_real_lambertw (num_neg (np_exp (num_neg phi))))
      (if f < 1 then Re (W0_cut (- exp (- f))) else W0 (- exp (- f)))"
    by simp
  then have "reads (num_mul inv_psi
      (num_add phi (np_real_lambertw (num_neg (np_exp (num_neg phi))))))
      (1 / p * (f + (if f < 1 then Re (W0_cut (- exp (- f))) else W0 (- exp (- f)))))"
    using i(2) assms(2) by (intro reads_mul reads_add)
  then show ?thesis
    unfolding x_star_try_def Let_def i(1) bindE_Inr by blast
qed

lemma calculate_optimal_threshold_finite:
  assumes "reads M m" "reads rho r" "reads lambda_val l" "reads sigma s"
    "reads kappa k" "reads tau t"
    and "m \<noteq> 0" "s \<noteq> 0" "t \<noteq> 1" "0 < r + l"
  defines "psi_r \<equiv> sqrt (2 * (r + l)) / s"
  defines "phi_r \<equiv> 1 + psi_r * (r + l) * (k / (1 - t)) / m"
  shows "\<exists>x_star psi phi C_M.
           calculate_optimal_threshold M rho lambda_val sigma kappa tau
             = Inr (x_star, psi, phi, C_M)
           \<and> reads psi psi_r \<and> reads C_M (k / (1 - t)) \<and> reads phi phi_r
           \<and> reads x_star (1 / psi_r * (phi_r + (if phi_r < 1
                                then Re (W0_cut (- exp (- phi_r)))
                                else W0 (- exp (- phi_r)))))"
proof -
  have p0: "psi_r \<noteq> 0" using assms by (simp add: psi_r_def)
  have "reads (np_sqrt (num_mul (py 2) (num_add rho lambda_val))) (sqrt (2 * (r + l)))"
    using assms by (intro reads_sqrt reads_mul reads_add) auto
  then obtain psi where psi:
    "num_div (np_sqrt (num_mul (py 2) (num_add rho lambda_val))) sigma = Inr psi"
    "reads psi psi_r"
    using reads_div [OF _ \<open>reads sigma s\<close>] assms unfolding psi_r_def by blast
  have "reads (num_sub (py 1) tau) (1 - t)"
    using assms by (intro reads_sub) auto
  then obtain C_M where cm: "num_div kappa (num_sub (py 1) tau) = Inr C_M"
    "reads C_M (k / (1 - t))"
    using reads_div [OF \<open>reads kappa k\<close>] assms by fastforce
  have "reads (num_mul (num_mul psi (num_add rho lambda_val)) C_M)
          (psi_r * (r + l) * (k / (1 - t)))"
    using psi cm assms by (intro reads_mul reads_add)
  then obtain q where q:
    "num_div (num_mul (num_mul psi (num_add rho lambda_val)) C_M) M = Inr q"
    "reads q (psi_r * (r + l) * (k / (1 - t)) / m)"
    using reads_div [OF _ \<open>reads M m\<close> \<open>m \<noteq> 0\<close>] by blast
  have phi: "reads (num_add (py 1) q) phi_r"
    unfolding phi_r_def using q by (intro reads_add) auto
  obtain x where x: "x_star_try psi (num_add (py 1) q) = Inr x"
    "reads x (1 / psi_r * (phi_r + (if phi_r < 1 then Re (W0_cut (- exp (- phi_r)))
                                else W0 (- exp (- phi_r)))))"
    using x_star_try_finite [OF psi(2) phi p0] by blast
  show ?thesis
    unfolding calculate_optimal_threshold_def psi(1) cm(1) q(1) bindE_Inr Let_def x(1)
    using psi(2) cm(2) phi x(2) by simp
qed

lemma calculate_lambda_valid:
  assumes "reads mu m" "reads i0 c" "reads Gamma g" "reads pi_infl p" "c * g \<noteq> 0"
  shows "\<exists>lam. calculate_lambda mu i0 Gamma pi_infl = Inr lam
           \<and> reads lam (if c * g < 100 then m + c / (exp (c * g) - 1) + p else m + p)"
proof (cases "c * g < 100")
  case True
  have ig: "reads (num_mul i0 Gamma) (c * g)"
    using assms by (intro reads_mul)
  then have lt: "num_less (num_mul i0 Gamma) (py 100)"
    using True by (simp add: reads_less [where y = 100])
  have "reads (num_sub (np_exp (num_mul i0 Gamma)) (py 1)) (exp (c * g) - 1)"
    using ig by (intro reads_sub reads_exp) auto
  moreover have "exp (c * g) - 1 \<noteq> 0"
    using assms(5) by simp
  ultimately obtain q where q:
    "num_div i0 (num_sub (np_exp (num_mul i0 Gamma)) (py 1)) = Inr q"
    "reads q (c / (exp (c * g) - 1))"
    using reads_div [OF assms(2)] by blast
  have "reads (num_add (num_add mu q) pi_infl) (m + c / (exp (c * g) - 1) + p)"
    using assms q by (intro reads_add)
  then show ?thesis
    unfolding calculate_lambda_def q(1) bindE_Inr using lt True by simp
next
  case False
  have ig: "reads (num_mul i0 Gamma) (c * g)"
    using assms by (intro reads_mul)
  then have lt: "\<not> num_less (num_mul i0 Gamma) (py 100)"
    using False by (simp add: reads_less [where y = 100])
  have "reads (num_add mu pi_infl) (m + p)"
    using assms by (intro reads_add)
  then show ?thesis
    unfolding calculate_lambda_def using lt False by simp
qed

lemma calculate_square_root_approximation_valid:
  assumes "reads M m" "reads rho r" "reads lambda_val l" "reads sigma s"
    "reads kappa k" "reads tau t"
    and "m \<noteq> 0" "t \<noteq> 1" "0 \<le> k / (m * (1 - t))" "0 \<le> r + l"
  shows "\<exists>x. calculate_square_root_approximation M rho lambda_val sigma kappa tau = Inr x
           \<and> reads x (- (s * sqrt (k / (m * (1 - t))) * sqrt (2 * (r + l))))"
proof -
  have "reads (num_mul M (num_sub (py 1) tau)) (m * (1 - t))"
    using assms by (intro reads_mul reads_sub) auto
  moreover have "m * (1 - t) \<noteq> 0"
    using assms by simp
  ultimately obtain q where q: "num_div kappa (num_mul M (num_sub (py 1) tau)) = Inr q"
    "reads q (k / (m * (1 - t)))"
    using reads_div [OF assms(5)] by blast
  have "reads (num_neg (num_mul (num_mul sigma (np_sqrt q))
                (np_sqrt (num_mul (py 2) (num_add rho lambda_val)))))
          (- (s * sqrt (k / (m * (1 - t))) * sqrt (2 * (r + l))))"
    using assms q by (intro reads_neg reads_mul reads_sqrt reads_add) auto
  then show ?thesis
    unfolding calculate_square_root_approximation_def q(1) bindE_Inr Let_def by blast
qed

lemma normalize_valid:
  assumes "reads r c0" "0 < c0"
  shows "\<exists>c cr. (if num_greater r (py 1) then num_div r (py 100) else Inr r) = Inr c
           \<and> reads c cr \<and> 0 < cr"
proof (cases "1 < c0")
  case True
  then have g: "num_greater r (py 1)"
    using assms by (simp add: reads_greater [where y = 1])
  obtain c where "num_div r (py 100) = Inr c" "reads c (c0 / 100)"
    using reads_div [OF assms(1), of "py 100" 100] by auto
  then show ?thesis
    using g assms(2) by auto
next
  case False
  then have "\<not> num_greater r (py 1)"
    using assms by (simp add: reads_greater [where y = 1])
  then show ?thesis
    using assms by auto
qed

lemma calculate_lambda_nonneg:
  assumes "reads mu m" "reads i0 c" "reads Gamma g" "reads pi_infl p"
    and "0 \<le> m" "0 < c" "0 < g" "0 \<le> p"
  shows "\<exists>lam l. calculate_lambda mu i0 Gamma pi_infl = Inr lam \<and> reads lam l \<and> 0 \<le> l"
proof -
  have cg: "0 < c * g"
    using assms by simp
  then have "0 < exp (c * g) - 1"
    by simp
  then have "0 \<le> c / (exp (c * g) - 1)"
    using assms(6) by simp
  then have "0 \<le> (if c * g < 100 then m + c / (exp (c * g) - 1) + p else m + p)"
    using assms(5,8) by simp
  moreover have "c * g \<noteq> 0"
    using cg by linarith
  ultimately show ?thesis
    using calculate_lambda_valid [OF assms(1-4)] by blast
qed

text \<open>
  A zero volatility in \<open>calculate_trigger_rate\<close>: the exact threshold is NaN, and the
  other fields of the result are finite.
\<close>

lemma calculate_trigger_rate_zero_volatility:
  assumes "reads r c0" "reads M m" "reads y g" "reads d rho" "reads v 0" "reads t tt"
    "reads f fc" "reads p pp" "reads mu mm" "reads infl ii"
    and "0 < c0" "0 < m" "0 < g" "0 < rho" "tt < 1" "0 \<le> fc" "0 \<le> pp" "0 \<le> mm" "0 \<le> ii"
  shows "\<exists>res a b l k. calculate_trigger_rate r M y d v t f p mu infl = Inr res
           \<and> np_isnan (r_x_star res)
           \<and> r_optimal_threshold_bps res = None \<and> r_trigger_rate res = None
           \<and> reads (r_sqrt_approx_bps res) a \<and> reads (r_npv_threshold_bps res) b
           \<and> reads (r_lambda res) l \<and> reads (r_kappa res) k"
proof -
  obtain c cr where c: "(if num_greater r (py 1) then num_div r (py 100) else Inr r) = Inr c"
    "reads c cr" "0 < cr"
    using normalize_valid [OF assms(1) \<open>0 < c0\<close>] by blast
  obtain lam l where lam: "calculate_lambda mu c y infl = Inr lam" "reads lam l" "0 \<le> l"
    using calculate_lambda_nonneg [OF assms(9) c(2) assms(3) assms(10)] assms c(3) by blast
  let ?k = "calculate_kappa M p f t"
  have k: "reads ?k (fc + pp * m)"
    unfolding calculate_kappa_def using assms by (intro reads_add reads_mul)
  have k0: "0 \<le> fc + pp * m"
    using assms by simp
  have t1: "tt \<noteq> 1" and m0: "m \<noteq> 0"
    using assms by simp_all
  have "reads (num_sub (py 1) t) (1 - tt)"
    using assms by (intro reads_sub) auto
  then have "\<not> is_zero (val (num_sub (py 1) t))"
    using t1 by (simp add: reads_is_zero)
  then obtain o1 where o1: "calculate_optimal_threshold M d lam v ?k t = Inr o1"
    using calculate_optimal_threshold_raises [of M d lam v ?k t]
    by (cases "calculate_optimal_threshold M d lam v ?k t") auto
  obtain x_star psi phi C_M where o: "o1 = (x_star, psi, phi, C_M)"
    by (cases o1) auto
  have z: "is_zero (val v)"
    using assms(5) by (simp add: reads_is_zero)
  have nan: "np_isnan x_star"
    using zero_volatility_gives_nan [OF z o1 [unfolded o]] .
  have q: "0 \<le> (fc + pp * m) / (m * (1 - tt))"
    using k0 assms by simp
  have rl: "0 \<le> rho + l"
    using assms lam by simp
  obtain xs where xs: "calculate_square_root_approximation M d lam v ?k t = Inr xs"
    "reads xs (- (0 * sqrt ((fc + pp * m) / (m * (1 - tt))) * sqrt (2 * (rho + l))))"
    using calculate_square_root_approximation_valid
      [OF assms(2) assms(4) lam(2) assms(5) k assms(6) m0 t1 q rl] by blast
  obtain xn where xn: "calculate_npv_threshold M d lam ?k t = Inr xn"
    "reads xn (- (rho + l) * ((fc + pp * m) / (1 - tt)) / m)"
    using calculate_npv_threshold_valid [OF assms(2) assms(4) lam(2) k assms(6) m0 t1]
    by blast
  have a: "reads (num_mul (num_neg xs) (py 10000))
      (- (- (0 * sqrt ((fc + pp * m) / (m * (1 - tt))) * sqrt (2 * (rho + l)))) * 10000)"
    using xs(2) by (intro reads_mul reads_neg) auto
  have b: "reads (num_mul (num_neg xn) (py 10000))
      (- (- (rho + l) * ((fc + pp * m) / (1 - tt)) / m) * 10000)"
    using xn(2) by (intro reads_mul reads_neg) auto
  show ?thesis
    unfolding calculate_trigger_rate_def c(1) lam(1) o1 o xs(1) xn(1) bindE_Inr Let_def
    using nan a b lam(2) k by auto
qed

text \<open>
  C4 (amended): with \<open>\<sigma> = 0\<close> and \<open>\<tau> \<noteq> 1\<close>, \<open>calculate_optimal_threshold\<close> returns, and its
  \<open>x*\<close> is NaN. With finite inputs, \<open>M \<noteq> 0\<close>, \<open>\<sigma> \<noteq> 0\<close>, \<open>\<tau> \<noteq> 1\<close> and \<open>\<rho> + \<lambda> > 0\<close> it returns a
  finite \<open>x*\<close>, never NaN: where the Lambert-W argument \<open>-e^(-\<phi>)\<close> lies below \<open>-1/e\<close>
  (\<open>\<phi> < 1\<close>), \<open>x*\<close> is \<open>(1/\<psi>)(\<phi> + Re w)\<close> for the complex principal value \<open>w\<close>. In
  \<open>calculate_trigger_rate\<close> with a zero volatility and otherwise valid parameters \<open>x*\<close> is
  NaN, \<open>optimal_threshold_bps\<close> and \<open>trigger_rate\<close> are \<open>None\<close>, and \<open>sqrt_approx_bps\<close>,
  \<open>npv_threshold_bps\<close>, \<open>lambda\<close> and \<open>kappa\<close> are finite numbers.
\<close>

theorem out_of_domain_threshold:
  "(is_zero (val sigma) \<and> reads tau t \<and> t \<noteq> 1 \<longrightarrow>
      (\<exists>x_star psi phi C_M.
         calculate_optimal_threshold M rho lambda_val sigma kappa tau
           = Inr (x_star, psi, phi, C_M)
         \<and> np_isnan x_star))
   \<and> (reads M m \<and> reads rho r \<and> reads lambda_val l \<and> reads sigma s \<and> reads kappa k
        \<and> reads tau t \<and> m \<noteq> 0 \<and> s \<noteq> 0 \<and> t \<noteq> 1 \<and> 0 < r + l \<longrightarrow>
      (\<exists>x_star psi phi C_M phi_r xr.
         calculate_optimal_threshold M rho lambda_val sigma kappa tau
           = Inr (x_star, psi, phi, C_M)
         \<and> phi_r = 1 + sqrt (2 * (r + l)) / s * (r + l) * (k / (1 - t)) / m
         \<and> reads phi phi_r \<and> reads x_star xr \<and> \<not> np_isnan x_star
         \<and> (phi_r < 1 \<longrightarrow>
              xr = 1 / (sqrt (2 * (r + l)) / s) * (phi_r + Re (W0_cut (- exp (- phi_r)))))))
   \<and> (reads current_rate cr \<and> reads M m \<and> reads years g \<and> reads rho r
        \<and> is_zero (val volatility) \<and> reads tau t \<and> reads fixed_cost fc \<and> reads points pp
        \<and> reads prob_moving mm \<and> reads inflation_rate ii
        \<and> 0 < cr \<and> 0 < m \<and> 0 < g \<and> 0 < r \<and> t < 1 \<and> 0 \<le> fc \<and> 0 \<le> pp \<and> 0 \<le> mm
        \<and> 0 \<le> ii \<longrightarrow>
      (\<exists>res a b lam kap.
         calculate_trigger_rate current_rate M years rho volatility tau fixed_cost points
           prob_moving inflation_rate = Inr res
         \<and> np_isnan (r_x_star res)
         \<and> r_optimal_threshold_bps res = None \<and> r_trigger_rate res = None
         \<and> reads (r_sqrt_approx_bps res) a \<and> reads (r_npv_threshold_bps res) b
         \<and> reads (r_lambda res) lam \<and> reads (r_kappa res) kap))"
proof (intro conjI impI)
  assume a: "is_zero (val sigma) \<and> reads tau t \<and> t \<noteq> 1"
  then have "reads (num_sub (py 1) tau) (1 - t)"
    by (intro reads_sub) auto
  then have "\<not> is_zero (val (num_sub (py 1) tau))"
    using a by (simp add: reads_is_zero)
  then obtain o1 where o1: "calculate_optimal_threshold M rho lambda_val sigma kappa tau = Inr o1"
    using calculate_optimal_threshold_raises [of M rho lambda_val sigma kappa tau]
    by (cases "calculate_optimal_threshold M rho lambda_val sigma kappa tau") auto
  obtain x_star psi phi C_M where o: "o1 = (x_star, psi, phi, C_M)"
    by (cases o1) auto
  have "np_isnan x_star"
    using zero_volatility_gives_nan [OF _ o1 [unfolded o]] a by blast
  then show "\<exists>x_star psi phi C_M.
         calculate_optimal_threshold M rho lambda_val sigma kappa tau
           = Inr (x_star, psi, phi, C_M) \<and> np_isnan x_star"
    using o1 o by blast
next
  assume a: "reads M m \<and> reads rho r \<and> reads lambda_val l \<and> reads sigma s \<and> reads kappa k
        \<and> reads tau t \<and> m \<noteq> 0 \<and> s \<noteq> 0 \<and> t \<noteq> 1 \<and> 0 < r + l"
  define phi_r where "phi_r = 1 + sqrt (2 * (r + l)) / s * (r + l) * (k / (1 - t)) / m"
  define xr where "xr = 1 / (sqrt (2 * (r + l)) / s) * (phi_r + (if phi_r < 1
      then Re (W0_cut (- exp (- phi_r))) else W0 (- exp (- phi_r))))"
  obtain x_star psi phi C_M where c:
    "calculate_optimal_threshold M rho lambda_val sigma kappa tau = Inr (x_star, psi, phi, C_M)"
    "reads phi phi_r" "reads x_star xr"
    using calculate_optimal_threshold_finite [of M m rho r lambda_val l sigma s kappa k tau t] a
    unfolding phi_r_def xr_def by blast
  have "\<not> np_isnan x_star"
    using c(3) by (rule reads_not_nan)
  moreover have "phi_r < 1 \<longrightarrow>
      xr = 1 / (sqrt (2 * (r + l)) / s) * (phi_r + Re (W0_cut (- exp (- phi_r))))"
    by (simp add: xr_def)
  ultimately show "\<exists>x_star psi phi C_M phi_r xr.
         calculate_optimal_threshold M rho lambda_val sigma kappa tau
           = Inr (x_star, psi, phi, C_M)
         \<and> phi_r = 1 + sqrt (2 * (r + l)) / s * (r + l) * (k / (1 - t)) / m
         \<and> reads phi phi_r \<and> reads x_star xr \<and> \<not> np_isnan x_star
         \<and> (phi_r < 1 \<longrightarrow>
              xr = 1 / (sqrt (2 * (r + l)) / s) * (phi_r + Re (W0_cut (- exp (- phi_r)))))"
    using c phi_r_def by blast
next
  assume a: "reads current_rate cr \<and> reads M m \<and> reads years g \<and> reads rho r
        \<and> is_zero (val volatility) \<and> reads tau t \<and> reads fixed_cost fc \<and> reads points pp
        \<and> reads prob_moving mm \<and> reads inflation_rate ii
        \<and> 0 < cr \<and> 0 < m \<and> 0 < g \<and> 0 < r \<and> t < 1 \<and> 0 \<le> fc \<and> 0 \<le> pp \<and> 0 \<le> mm
        \<and> 0 \<le> ii"
  then have "reads volatility 0"
    by (cases "val volatility") (auto simp: reads_def)
  then show "\<exists>res a b lam kap.
         calculate_trigger_rate current_rate M years rho volatility tau fixed_cost points
           prob_moving inflation_rate = Inr res
         \<and> np_isnan (r_x_star res)
         \<and> r_optimal_threshold_bps res = None \<and> r_trigger_rate res = None
         \<and> reads (r_sqrt_approx_bps res) a \<and> reads (r_npv_threshold_bps res) b
         \<and> reads (r_lambda res) lam \<and> reads (r_kappa res) kap"
    using calculate_trigger_rate_zero_volatility
      [of current_rate cr M m years g rho r volatility tau t fixed_cost fc points pp
          prob_moving mm inflation_rate ii] a
    by blast
qed

theorem out_of_domain_threshold_witness:
  "\<not> isl (calculate_optimal_threshold (py 400000) (py (5 / 100)) (py (13 / 100)) (py 0)
            (py 6000) (py (28 / 100)))
   \<and> np_isnan (fst (projr (calculate_optimal_threshold (py 400000) (py (5 / 100))
            (py (13 / 100)) (py 0) (py 6000) (py (28 / 100)))))
   \<and> \<not> isl (calculate_optimal_threshold (py 400000) (py (5 / 100)) (py (13 / 100))
            (py (109 / 10000)) (py (- 2000)) (py (28 / 100)))
   \<and> \<not> np_isnan (fst (projr (calculate_optimal_threshold (py 400000) (py (5 / 100))
            (py (13 / 100)) (py (109 / 10000)) (py (- 2000)) (py (28 / 100)))))
   \<and> \<not> isl (calculate_trigger_rate (py (65 / 1000)) (py 400000) (py 25) (py (5 / 100))
            (py 0) (py (28 / 100)) (py 2000) (py (1 / 100)) (py (10 / 100)) (py (3 / 100)))
   \<and> np_isnan (r_x_star (projr (calculate_trigger_rate (py (65 / 1000)) (py 400000)
            (py 25) (py (5 / 100)) (py 0) (py (28 / 100)) (py 2000) (py (1 / 100))
            (py (10 / 100)) (py (3 / 100)))))
   \<and> r_trigger_rate (projr (calculate_trigger_rate (py (65 / 1000)) (py 400000)
            (py 25) (py (5 / 100)) (py 0) (py (28 / 100)) (py 2000) (py (1 / 100))
            (py (10 / 100)) (py (3 / 100)))) = None
   \<and> \<not> np_isnan (r_npv_threshold_bps (projr (calculate_trigger_rate (py (65 / 1000))
            (py 400000) (py 25) (py (5 / 100)) (py 0) (py (28 / 100)) (py 2000)
            (py (1 / 100)) (py (10 / 100)) (py (3 / 100)))))
   \<and> \<not> np_isnan (r_sqrt_approx_bps (projr (calculate_trigger_rate (py (65 / 1000))
            (py 400000) (py 25) (py (5 / 100)) (py 0) (py (28 / 100)) (py 2000)
            (py (1 / 100)) (py (10 / 100)) (py (3 / 100)))))"
proof -
  have z: "is_zero (val (py 0))"
    by (simp add: py_def)
  obtain x1 psi1 phi1 C1 where
    a: "calculate_optimal_threshold (py 400000) (py (5 / 100)) (py (13 / 100)) (py 0)
          (py 6000) (py (28 / 100)) = Inr (x1, psi1, phi1, C1)" "np_isnan x1"
    using out_of_domain_threshold [where sigma = "py 0" and tau = "py (28 / 100)"
        and t = "28 / 100" and M = "py 400000" and rho = "py (5 / 100)"
        and lambda_val = "py (13 / 100)" and kappa = "py 6000", THEN conjunct1] z
    by auto
  obtain x2 psi2 phi2 C2 where
    b: "calculate_optimal_threshold (py 400000) (py (5 / 100)) (py (13 / 100))
          (py (109 / 10000)) (py (- 2000)) (py (28 / 100)) = Inr (x2, psi2, phi2, C2)"
       "\<not> np_isnan x2"
    using out_of_domain_threshold [where sigma = "py (109 / 10000)" and tau = "py (28 / 100)"
        and t = "28 / 100" and M = "py 400000" and rho = "py (5 / 100)"
        and lambda_val = "py (13 / 100)" and kappa = "py (- 2000)" and m = 400000
        and r = "5 / 100" and l = "13 / 100" and s = "109 / 10000" and k = "- 2000",
        THEN conjunct2, THEN conjunct1]
    by auto
  obtain res a1 b1 l1 k1 where
    c: "calculate_trigger_rate (py (65 / 1000)) (py 400000) (py 25) (py (5 / 100))
          (py 0) (py (28 / 100)) (py 2000) (py (1 / 100)) (py (10 / 100)) (py (3 / 100))
          = Inr res"
       "np_isnan (r_x_star res)" "r_trigger_rate res = None"
       "reads (r_sqrt_approx_bps res) a1" "reads (r_npv_threshold_bps res) b1"
    using out_of_domain_threshold [where current_rate = "py (65 / 1000)" and cr = "65 / 1000"
        and M = "py 400000" and m = 400000 and years = "py 25" and g = 25
        and rho = "py (5 / 100)" and r = "5 / 100" and volatility = "py 0"
        and tau = "py (28 / 100)" and t = "28 / 100" and fixed_cost = "py 2000" and fc = 2000
        and points = "py (1 / 100)" and pp = "1 / 100" and prob_moving = "py (10 / 100)"
        and mm = "10 / 100" and inflation_rate = "py (3 / 100)" and ii = "3 / 100",
        THEN conjunct2, THEN conjunct2] z
    by auto
  show ?thesis
    using a b c reads_not_nan [OF c(4)] reads_not_nan [OF c(5)] by simp
qed

text \<open>
  C4 as stated fails: with a negative cost \<open>\<kappa> = -2000\<close> the Lambert-W argument
  \<open>-e^(-\<phi>)\<close>, \<open>\<phi> = 203/218\<close>, lies below \<open>-1/e\<close>, and \<open>x*\<close> is not NaN; with \<open>M = 0\<close> and the
  default parameters \<open>x*\<close> is \<open>+\<infinity>\<close>, not NaN.
\<close>

theorem out_of_domain_not_nan_counterexample:
  "\<not> isl (calculate_optimal_threshold (py 400000) (py (5 / 100)) (py (13 / 100))
            (py (109 / 10000)) (py (- 2000)) (py (28 / 100)))
   \<and> reads (fst (snd (snd (projr (calculate_optimal_threshold (py 400000) (py (5 / 100))
            (py (13 / 100)) (py (109 / 10000)) (py (- 2000)) (py (28 / 100))))))) (203 / 218)
   \<and> - exp (- (203 / 218)) < - exp (- (1::real))
   \<and> \<not> np_isnan (fst (projr (calculate_optimal_threshold (py 400000) (py (5 / 100))
            (py (13 / 100)) (py (109 / 10000)) (py (- 2000)) (py (28 / 100)))))
   \<and> \<not> isl (calculate_optimal_threshold (py 0) (py (5 / 100)) (py (13 / 100))
            (py (109 / 10000)) (py 2000) (py (28 / 100)))
   \<and> fst (projr (calculate_optimal_threshold (py 0) (py (5 / 100)) (py (13 / 100))
            (py (109 / 10000)) (py 2000) (py (28 / 100)))) = Num True PInf
   \<and> \<not> np_isnan (Num True PInf)"
proof -
  have sq: "sqrt (2 * (5 / 100 + 13 / 100)) = (6 / 10 :: real)"
    by (rule real_sqrt_unique) (simp_all add: power2_eq_square)
  obtain x2 psi2 phi2 C2 xr where
    b: "calculate_optimal_threshold (py 400000) (py (5 / 100)) (py (13 / 100))
          (py (109 / 10000)) (py (- 2000)) (py (28 / 100)) = Inr (x2, psi2, phi2, C2)"
       "reads phi2 (1 + sqrt (2 * (5 / 100 + 13 / 100)) / (109 / 10000)
                        * (5 / 100 + 13 / 100) * (- 2000 / (1 - 28 / 100)) / 400000)"
       "reads x2 xr"
    using calculate_optimal_threshold_finite [where M = "py 400000" and rho = "py (5 / 100)"
        and lambda_val = "py (13 / 100)" and sigma = "py (109 / 10000)"
        and kappa = "py (- 2000)" and tau = "py (28 / 100)" and m = 400000
        and r = "5 / 100" and l = "13 / 100" and s = "109 / 10000" and k = "- 2000"
        and t = "28 / 100"]
    by auto
  have e: "1 + sqrt (2 * (5 / 100 + 13 / 100)) / (109 / 10000)
          * (5 / 100 + 13 / 100) * (- 2000 / (1 - 28 / 100)) / 400000 = (203 / 218 :: real)"
    unfolding sq by simp
  have phi: "reads phi2 (203 / 218)"
    using b(2) unfolding e .
  obtain psi C_M where
    d: "calculate_optimal_threshold (py 0) (py (5 / 100)) (py (13 / 100))
       (py (109 / 10000)) (py 2000) (py (28 / 100)) = Inr (Num True PInf, psi, Num True PInf, C_M)"
    using calculate_optimal_threshold_zero_balance [where M = "py 0" and rho = "py (5 / 100)"
        and lambda_val = "py (13 / 100)" and sigma = "py (109 / 10000)" and kappa = "py 2000"
        and tau = "py (28 / 100)" and r = "5 / 100" and l = "13 / 100" and s = "109 / 10000"
        and k = 2000 and t = "28 / 100"]
    by (auto simp: py_def reads_def)
  show ?thesis
    using b(1) phi reads_not_nan [OF b(3)] d by (simp add: np_isnan_def)
qed
section \<open>The closed form of the threshold\<close>

text \<open>
  C1 (amended): \<open>calculate_optimal_threshold\<close> raises \<open>ZeroDivisionError\<close> exactly when
  \<open>\<kappa>\<close> and \<open>\<tau>\<close> are Python floats with \<open>1 - \<tau> = 0\<close>, and returns a tuple otherwise. For finite
  inputs with \<open>M \<noteq> 0\<close>, \<open>\<sigma> \<noteq> 0\<close>, \<open>\<tau> \<noteq> 1\<close> and \<open>\<rho> + \<lambda> > 0\<close> the tuple is \<open>(x*, \<psi>, \<phi>, C_M)\<close> with
  \<open>\<psi> = \<surd>(2(\<rho>+\<lambda>))/\<sigma>\<close>, \<open>C_M = \<kappa>/(1-\<tau>)\<close>, \<open>\<phi> = 1 + \<psi>(\<rho>+\<lambda>)C_M/M\<close> and \<open>x* = (1/\<psi>)(\<phi> + w)\<close>, where
  \<open>w\<close> is the real part of the principal value of Lambert W at \<open>-e^(-\<phi>)\<close>: for \<open>\<phi> \<ge> 1\<close> the
  real solution \<open>w \<ge> -1\<close> of \<open>w e^w = -e^(-\<phi>)\<close>, and for \<open>\<phi> < 1\<close> the real part of the complex
  principal value.
\<close>

theorem calculate_optimal_threshold_formula:
  "(calculate_optimal_threshold M rho lambda_val sigma kappa tau = Inl e \<longleftrightarrow>
      \<not> is_np kappa \<and> \<not> is_np tau \<and> is_zero (val (num_sub (py 1) tau))
      \<and> e = ZeroDivisionError)
   \<and> (reads M m \<and> reads rho r \<and> reads lambda_val l \<and> reads sigma s \<and> reads kappa k
        \<and> reads tau t \<and> m \<noteq> 0 \<and> s \<noteq> 0 \<and> t \<noteq> 1 \<and> 0 < r + l \<longrightarrow>
      (\<exists>x_star psi phi C_M psi_r C_r phi_r w.
         calculate_optimal_threshold M rho lambda_val sigma kappa tau
           = Inr (x_star, psi, phi, C_M)
         \<and> reads psi psi_r \<and> psi_r = sqrt (2 * (r + l)) / s
         \<and> reads C_M C_r \<and> C_r = k / (1 - t)
         \<and> reads phi phi_r \<and> phi_r = 1 + psi_r * (r + l) * C_r / m
         \<and> reads x_star (1 / psi_r * (phi_r + w))
         \<and> (1 \<le> phi_r \<longrightarrow>
               - 1 \<le> w \<and> w * exp w = - exp (- phi_r) \<and> w = W0 (- exp (- phi_r)))
         \<and> (phi_r < 1 \<longrightarrow> w = Re (W0_cut (- exp (- phi_r))))))"
proof (intro conjI impI)
  show "calculate_optimal_threshold M rho lambda_val sigma kappa tau = Inl e \<longleftrightarrow>
      \<not> is_np kappa \<and> \<not> is_np tau \<and> is_zero (val (num_sub (py 1) tau))
      \<and> e = ZeroDivisionError"
    by (rule calculate_optimal_threshold_raises)
next
  assume a: "reads M m \<and> reads rho r \<and> reads lambda_val l \<and> reads sigma s \<and> reads kappa k
        \<and> reads tau t \<and> m \<noteq> 0 \<and> s \<noteq> 0 \<and> t \<noteq> 1 \<and> 0 < r + l"
  define psi_r where "psi_r = sqrt (2 * (r + l)) / s"
  define C_r where "C_r = k / (1 - t)"
  define phi_r where "phi_r = 1 + psi_r * (r + l) * C_r / m"
  define w where "w = (if phi_r < 1 then Re (W0_cut (- exp (- phi_r)))
                       else W0 (- exp (- phi_r)))"
  obtain x_star psi phi C_M where c:
    "calculate_optimal_threshold M rho lambda_val sigma kappa tau = Inr (x_star, psi, phi, C_M)"
    "reads psi psi_r" "reads C_M C_r" "reads phi phi_r" "reads x_star (1 / psi_r * (phi_r + w))"
    using calculate_optimal_threshold_finite [of M m rho r lambda_val l sigma s kappa k tau t] a
    unfolding psi_r_def C_r_def phi_r_def w_def by blast
  have w1: "1 \<le> phi_r \<longrightarrow>
      - 1 \<le> w \<and> w * exp w = - exp (- phi_r) \<and> w = W0 (- exp (- phi_r))"
  proof
    assume f: "1 \<le> phi_r"
    then have "- exp (- 1) \<le> - exp (- phi_r)"
      by simp
    then have "- 1 \<le> W0 (- exp (- phi_r))
        \<and> W0 (- exp (- phi_r)) * exp (W0 (- exp (- phi_r))) = - exp (- phi_r)"
      by (rule W0_principal)
    moreover have "w = W0 (- exp (- phi_r))"
      using f by (simp add: w_def)
    ultimately show "- 1 \<le> w \<and> w * exp w = - exp (- phi_r) \<and> w = W0 (- exp (- phi_r))"
      by simp
  qed
  have w2: "phi_r < 1 \<longrightarrow> w = Re (W0_cut (- exp (- phi_r)))"
    by (simp add: w_def)
  show "\<exists>x_star psi phi C_M psi_r C_r phi_r w.
         calculate_optimal_threshold M rho lambda_val sigma kappa tau
           = Inr (x_star, psi, phi, C_M)
         \<and> reads psi psi_r \<and> psi_r = sqrt (2 * (r + l)) / s
         \<and> reads C_M C_r \<and> C_r = k / (1 - t)
         \<and> reads phi phi_r \<and> phi_r = 1 + psi_r * (r + l) * C_r / m
         \<and> reads x_star (1 / psi_r * (phi_r + w))
         \<and> (1 \<le> phi_r \<longrightarrow>
               - 1 \<le> w \<and> w * exp w = - exp (- phi_r) \<and> w = W0 (- exp (- phi_r)))
         \<and> (phi_r < 1 \<longrightarrow> w = Re (W0_cut (- exp (- phi_r))))"
    using c w1 w2 psi_r_def C_r_def phi_r_def by blast
qed

lemma sqrt_36_100: "sqrt (2 * (5 / 100 + 13 / 100)) = (6 / 10 :: real)"
  by (rule real_sqrt_unique) (simp_all add: power2_eq_square)

theorem calculate_optimal_threshold_formula_witness:
  "(\<exists>x_star psi phi C_M w.
      calculate_optimal_threshold (py 400000) (py (5 / 100)) (py (13 / 100))
          (py (109 / 10000)) (py 6000) (py (28 / 100))
        = Inr (x_star, psi, phi, C_M)
      \<and> reads psi (6000 / 109) \<and> reads C_M (25000 / 3) \<and> reads phi (263 / 218)
      \<and> - 1 \<le> w \<and> w * exp w = - exp (- (263 / 218)) \<and> w = W0 (- exp (- (263 / 218)))
      \<and> reads x_star (1 / (6000 / 109) * (263 / 218 + w)))
   \<and> (\<exists>x_star psi phi C_M.
      calculate_optimal_threshold (py 400000) (py (5 / 100)) (py (13 / 100))
          (py (109 / 10000)) (py (- 2000)) (py (28 / 100))
        = Inr (x_star, psi, phi, C_M)
      \<and> reads psi (6000 / 109) \<and> reads C_M (- 25000 / 9) \<and> reads phi (203 / 218)
      \<and> reads x_star (1 / (6000 / 109)
                        * (203 / 218 + Re (W0_cut (- exp (- (203 / 218)))))))"
proof -
  have e1: "sqrt (2 * (5 / 100 + 13 / 100)) / (109 / 10000) = (6000 / 109 :: real)"
    unfolding sqrt_36_100 by simp
  have e2: "1 + 6000 / 109 * (5 / 100 + 13 / 100) * (6000 / (1 - 28 / 100)) / 400000
            = (263 / 218 :: real)"
    by simp
  have e3: "1 + 6000 / 109 * (5 / 100 + 13 / 100) * (- 2000 / (1 - 28 / 100)) / 400000
            = (203 / 218 :: real)"
    by simp
  have e4: "6000 / (1 - 28 / 100) = (25000 / 3 :: real)"
       "- 2000 / (1 - 28 / 100) = (- 25000 / 9 :: real)"
    by simp_all
  have h1: "reads (py 400000) 400000 \<and> reads (py (5 / 100)) (5 / 100)
      \<and> reads (py (13 / 100)) (13 / 100) \<and> reads (py (109 / 10000)) (109 / 10000)
      \<and> reads (py 6000) 6000 \<and> reads (py (28 / 100)) (28 / 100)
      \<and> (400000::real) \<noteq> 0 \<and> (109 / 10000 :: real) \<noteq> 0 \<and> (28 / 100 :: real) \<noteq> 1
      \<and> (0::real) < 5 / 100 + 13 / 100"
    by simp
  have h2: "reads (py 400000) 400000 \<and> reads (py (5 / 100)) (5 / 100)
      \<and> reads (py (13 / 100)) (13 / 100) \<and> reads (py (109 / 10000)) (109 / 10000)
      \<and> reads (py (- 2000)) (- 2000) \<and> reads (py (28 / 100)) (28 / 100)
      \<and> (400000::real) \<noteq> 0 \<and> (109 / 10000 :: real) \<noteq> 0 \<and> (28 / 100 :: real) \<noteq> 1
      \<and> (0::real) < 5 / 100 + 13 / 100"
    by simp
  obtain x1 psi1 phi1 C1 psi_r C_r phi_r w where
    a: "calculate_optimal_threshold (py 400000) (py (5 / 100)) (py (13 / 100))
          (py (109 / 10000)) (py 6000) (py (28 / 100)) = Inr (x1, psi1, phi1, C1)"
       "reads psi1 psi_r" "psi_r = sqrt (2 * (5 / 100 + 13 / 100)) / (109 / 10000)"
       "reads C1 C_r" "C_r = 6000 / (1 - 28 / 100)"
       "reads phi1 phi_r" "phi_r = 1 + psi_r * (5 / 100 + 13 / 100) * C_r / 400000"
       "reads x1 (1 / psi_r * (phi_r + w))"
       "1 \<le> phi_r \<longrightarrow>
          - 1 \<le> w \<and> w * exp w = - exp (- phi_r) \<and> w = W0 (- exp (- phi_r))"
    using calculate_optimal_threshold_formula [where M = "py 400000" and rho = "py (5 / 100)"
        and lambda_val = "py (13 / 100)" and sigma = "py (109 / 10000)" and kappa = "py 6000"
        and tau = "py (28 / 100)" and m = 400000 and r = "5 / 100" and l = "13 / 100"
        and s = "109 / 10000" and k = 6000 and t = "28 / 100", THEN conjunct2,
        rule_format, OF h1]
    by blast
  have p1: "psi_r = 6000 / 109"
    using a(3) unfolding e1 .
  have f1: "phi_r = 263 / 218"
    using a(7) unfolding p1 a(5) e2 .
  have first: "\<exists>x_star psi phi C_M w.
      calculate_optimal_threshold (py 400000) (py (5 / 100)) (py (13 / 100))
          (py (109 / 10000)) (py 6000) (py (28 / 100))
        = Inr (x_star, psi, phi, C_M)
      \<and> reads psi (6000 / 109) \<and> reads C_M (25000 / 3) \<and> reads phi (263 / 218)
      \<and> - 1 \<le> w \<and> w * exp w = - exp (- (263 / 218)) \<and> w = W0 (- exp (- (263 / 218)))
      \<and> reads x_star (1 / (6000 / 109) * (263 / 218 + w))"
    using a(1,2,4,6,8,9) unfolding p1 f1 a(5) e4 by auto
  obtain x2 psi2 phi2 C2 psi_r2 C_r2 phi_r2 w2 where
    b: "calculate_optimal_threshold (py 400000) (py (5 / 100)) (py (13 / 100))
          (py (109 / 10000)) (py (- 2000)) (py (28 / 100)) = Inr (x2, psi2, phi2, C2)"
       "reads psi2 psi_r2" "psi_r2 = sqrt (2 * (5 / 100 + 13 / 100)) / (109 / 10000)"
       "reads C2 C_r2" "C_r2 = - 2000 / (1 - 28 / 100)"
       "reads phi2 phi_r2" "phi_r2 = 1 + psi_r2 * (5 / 100 + 13 / 100) * C_r2 / 400000"
       "reads x2 (1 / psi_r2 * (phi_r2 + w2))"
       "phi_r2 < 1 \<longrightarrow> w2 = Re (W0_cut (- exp (- phi_r2)))"
    using calculate_optimal_threshold_formula [where M = "py 400000" and rho = "py (5 / 100)"
        and lambda_val = "py (13 / 100)" and sigma = "py (109 / 10000)"
        and kappa = "py (- 2000)" and tau = "py (28 / 100)" and m = 400000 and r = "5 / 100"
        and l = "13 / 100" and s = "109 / 10000" and k = "- 2000" and t = "28 / 100",
        THEN conjunct2, rule_format, OF h2]
    by blast
  have p2: "psi_r2 = 6000 / 109"
    using b(3) unfolding e1 .
  have f2: "phi_r2 = 203 / 218"
    using b(7) unfolding p2 b(5) e3 .
  have second: "\<exists>x_star psi phi C_M.
      calculate_optimal_threshold (py 400000) (py (5 / 100)) (py (13 / 100))
          (py (109 / 10000)) (py (- 2000)) (py (28 / 100))
        = Inr (x_star, psi, phi, C_M)
      \<and> reads psi (6000 / 109) \<and> reads C_M (- 25000 / 9) \<and> reads phi (203 / 218)
      \<and> reads x_star (1 / (6000 / 109)
                        * (203 / 218 + Re (W0_cut (- exp (- (203 / 218))))))"
    using b(1,2,4,6,8,9) unfolding p2 f2 b(5) e4 by auto
  show ?thesis
    using first second by (rule conjI)
qed

text \<open>
  C1 as stated fails: with \<open>\<tau> = 1\<close> (Python floats) the division \<open>kappa / (1 - tau)\<close> raises
  \<open>ZeroDivisionError\<close> and no tuple is returned; and with \<open>\<sigma> = 0\<close> the returned \<open>x*\<close> is NaN.
\<close>

theorem calculate_optimal_threshold_raises_counterexample:
  "calculate_optimal_threshold (py 400000) (py (5 / 100)) (py (13 / 100)) (py (109 / 10000))
      (py 6000) (py 1) = Inl ZeroDivisionError
   \<and> \<not> isl (calculate_optimal_threshold (py 250000) (py (5 / 100)) (py (13 / 100)) (py 0)
              (py 4500) (py (28 / 100)))
   \<and> np_isnan (fst (projr (calculate_optimal_threshold (py 250000) (py (5 / 100))
              (py (13 / 100)) (py 0) (py 4500) (py (28 / 100)))))"
proof -
  have one: "calculate_optimal_threshold (py 400000) (py (5 / 100)) (py (13 / 100))
      (py (109 / 10000)) (py 6000) (py 1) = Inl ZeroDivisionError"
    unfolding calculate_optimal_threshold_raises by (simp add: py_def num_sub_def)
  have "\<not> is_zero (val (num_sub (py 1) (py (28 / 100))))"
    by (simp add: py_def num_sub_def)
  then obtain o1 where o1: "calculate_optimal_threshold (py 250000) (py (5 / 100))
      (py (13 / 100)) (py 0) (py 4500) (py (28 / 100)) = Inr o1"
    using calculate_optimal_threshold_raises [of "py 250000" "py (5 / 100)" "py (13 / 100)"
        "py 0" "py 4500" "py (28 / 100)"]
    by (cases "calculate_optimal_threshold (py 250000) (py (5 / 100))
      (py (13 / 100)) (py 0) (py 4500) (py (28 / 100))") auto
  obtain x_star psi phi C_M where o: "o1 = (x_star, psi, phi, C_M)"
    by (cases o1) auto
  have "is_zero (val (py 0))"
    by (simp add: py_def)
  then have "np_isnan x_star"
    using zero_volatility_gives_nan o1 [unfolded o] by blast
  then show ?thesis
    using one o1 o by simp
qed
section \<open>The two LLPA engines\<close>

lemma get_ltv_bucket_known: "get_ltv_bucket ltv \<in> set ltv_buckets"
  by (simp add: get_ltv_bucket_def ltv_buckets_def)

lemma get_credit_score_bucket_known: "get_credit_score_bucket cs \<in> set score_buckets"
  by (simp add: get_credit_score_bucket_def score_buckets_def)

lemma dict_get_key:
  assumes "k \<in> set (map fst d)"
  shows "\<exists>v. dict_get d k = Inr v"
proof -
  have "map_of d k \<noteq> None"
    using assms by (simp add: map_of_eq_None_iff)
  then show ?thesis
    by (auto simp: dict_get_def)
qed

lemma dict_get_in: "dict_get d k = Inr v \<Longrightarrow> (k, v) \<in> set d"
  by (auto simp: dict_get_def split: option.splits dest: map_of_SomeD)

lemma matrix_get_total:
  assumes "map fst T = score_buckets" "\<forall>r \<in> set (map snd T). map fst r = ltv_buckets"
    and "a \<in> set score_buckets" "b \<in> set ltv_buckets"
  shows "\<exists>v. matrix_get T a b = Inr v"
proof -
  obtain row where row: "dict_get T a = Inr row"
    using dict_get_key [of a T] assms by auto
  then have "(a, row) \<in> set T" by (rule dict_get_in)
  then have "map fst row = ltv_buckets"
    using assms(2) by force
  then obtain v where "dict_get row b = Inr v"
    using dict_get_key [of b row] assms by auto
  with row show ?thesis
    by (simp add: matrix_get_def)
qed

lemma matrix_shapes:
  "map fst PURCHASE_CREDIT_SCORE_LTV = score_buckets"
  "\<forall>r \<in> set (map snd PURCHASE_CREDIT_SCORE_LTV). map fst r = ltv_buckets"
  "map fst LIMITED_CASHOUT_CREDIT_SCORE_LTV = score_buckets"
  "\<forall>r \<in> set (map snd LIMITED_CASHOUT_CREDIT_SCORE_LTV). map fst r = ltv_buckets"
  by (simp_all add: PURCHASE_CREDIT_SCORE_LTV_def LIMITED_CASHOUT_CREDIT_SCORE_LTV_def
      score_buckets_def ltv_buckets_def)

lemma table_shapes:
  "map fst PURCHASE_CONDO = ltv_buckets"
  "map fst PURCHASE_2_TO_4_UNIT = ltv_buckets"
  "map fst PURCHASE_INVESTMENT = ltv_buckets"
  "map fst PURCHASE_SECOND_HOME = ltv_buckets"
  "map fst PURCHASE_HIGH_BALANCE_FIXED = ltv_buckets"
  by (simp_all add: ltv_buckets_def PURCHASE_CONDO_def PURCHASE_2_TO_4_UNIT_def
      PURCHASE_INVESTMENT_def PURCHASE_SECOND_HOME_def PURCHASE_HIGH_BALANCE_FIXED_def)

lemma tables_agree:
  "llpa_PURCHASE_CREDIT_SCORE_LTV = PURCHASE_CREDIT_SCORE_LTV"
  "llpa_LIMITED_CASHOUT_CREDIT_SCORE_LTV = LIMITED_CASHOUT_CREDIT_SCORE_LTV"
  "llpa_CONDO_ADJUSTMENT = PURCHASE_CONDO"
  "llpa_MULTI_UNIT_ADJUSTMENT = PURCHASE_2_TO_4_UNIT"
  "llpa_INVESTMENT_PROPERTY_ADJUSTMENT = PURCHASE_INVESTMENT"
  "llpa_SECOND_HOME_ADJUSTMENT = PURCHASE_SECOND_HOME"
  "llpa_HIGH_BALANCE_FIXED = PURCHASE_HIGH_BALANCE_FIXED"
  "llpa_CONFORMING_LIMIT_2025 = CONFORMING_LIMIT_2025"
  by (simp_all only: llpa_PURCHASE_CREDIT_SCORE_LTV_def PURCHASE_CREDIT_SCORE_LTV_def
      llpa_LIMITED_CASHOUT_CREDIT_SCORE_LTV_def LIMITED_CASHOUT_CREDIT_SCORE_LTV_def
      llpa_CONDO_ADJUSTMENT_def PURCHASE_CONDO_def llpa_MULTI_UNIT_ADJUSTMENT_def
      PURCHASE_2_TO_4_UNIT_def llpa_INVESTMENT_PROPERTY_ADJUSTMENT_def PURCHASE_INVESTMENT_def
      llpa_SECOND_HOME_ADJUSTMENT_def PURCHASE_SECOND_HOME_def llpa_HIGH_BALANCE_FIXED_def
      PURCHASE_HIGH_BALANCE_FIXED_def llpa_CONFORMING_LIMIT_2025_def CONFORMING_LIMIT_2025_def)

lemma buckets_agree:
  "llpa_get_ltv_bucket ltv = get_ltv_bucket ltv"
  "llpa_get_credit_score_bucket cs = get_credit_score_bucket cs"
  by (simp_all only: llpa_get_ltv_bucket_def get_ltv_bucket_def
      llpa_get_credit_score_bucket_def get_credit_score_bucket_def)

lemma dict_get_or_eq: "dict_get d k = Inr v \<Longrightarrow> dict_get_or d k dflt = v"
  by (auto simp: dict_get_def dict_get_or_def split: option.splits)

lemma ltv_table_total:
  assumes "map fst d = ltv_buckets"
  shows "\<exists>v. dict_get d (get_ltv_bucket ltv) = Inr v"
  using dict_get_key [of "get_ltv_bucket ltv" d] get_ltv_bucket_known [of ltv] assms by simp

text \<open>What \<open>calculate_conventional_llpa\<close> returns, for every input.\<close>

lemma calculate_conventional_llpa_value:
  "\<exists>credit_ltv prop occ high.
     (if loan_purpose = ''Purchase''
      then matrix_get PURCHASE_CREDIT_SCORE_LTV (get_credit_score_bucket credit_score)
             (get_ltv_bucket ltv)
      else matrix_get LIMITED_CASHOUT_CREDIT_SCORE_LTV (get_credit_score_bucket credit_score)
             (get_ltv_bucket ltv)) = Inr credit_ltv
     \<and> (if property_type = ''Condo'' then dict_get PURCHASE_CONDO (get_ltv_bucket ltv)
        else if property_type \<in> set [''2-Unit'', ''3-Unit'', ''4-Unit'']
        then dict_get PURCHASE_2_TO_4_UNIT (get_ltv_bucket ltv)
        else Inr 0) = Inr prop
     \<and> (if occupancy = ''Investment Property''
        then dict_get PURCHASE_INVESTMENT (get_ltv_bucket ltv)
        else if occupancy = ''Second Home''
        then dict_get PURCHASE_SECOND_HOME (get_ltv_bucket ltv)
        else Inr 0) = Inr occ
     \<and> (if loan_amount > CONFORMING_LIMIT_2025
        then dict_get PURCHASE_HIGH_BALANCE_FIXED (get_ltv_bucket ltv)
        else Inr 0) = Inr high
     \<and> calculate_conventional_llpa credit_score ltv loan_amount loan_purpose property_type
         occupancy
       = Inr [(''Credit Score / LTV'', credit_ltv), (''Property Type'', prop),
              (''Occupancy'', occ), (''High Balance'', high),
              (''Total LLPA'', credit_ltv + prop + occ + high)]"
proof -
  let ?sb = "get_credit_score_bucket credit_score" and ?lb = "get_ltv_bucket ltv"
  have k: "?sb \<in> set score_buckets" "?lb \<in> set ltv_buckets"
    by (rule get_credit_score_bucket_known get_ltv_bucket_known)+
  obtain c where c: "(if loan_purpose = ''Purchase''
      then matrix_get PURCHASE_CREDIT_SCORE_LTV ?sb ?lb
      else matrix_get LIMITED_CASHOUT_CREDIT_SCORE_LTV ?sb ?lb) = Inr c"
    using matrix_get_total [OF matrix_shapes(1,2) k] matrix_get_total [OF matrix_shapes(3,4) k]
    by (cases "loan_purpose = ''Purchase''") auto
  obtain p where p: "(if property_type = ''Condo'' then dict_get PURCHASE_CONDO ?lb
        else if property_type \<in> set [''2-Unit'', ''3-Unit'', ''4-Unit'']
        then dict_get PURCHASE_2_TO_4_UNIT ?lb
        else Inr 0) = Inr p"
    using ltv_table_total [OF table_shapes(1), of ltv] ltv_table_total [OF table_shapes(2), of ltv]
    by (cases "property_type = ''Condo''";
        cases "property_type \<in> set [''2-Unit'', ''3-Unit'', ''4-Unit'']") auto
  obtain oc where oc: "(if occupancy = ''Investment Property''
        then dict_get PURCHASE_INVESTMENT ?lb
        else if occupancy = ''Second Home''
        then dict_get PURCHASE_SECOND_HOME ?lb
        else Inr 0) = Inr oc"
    using ltv_table_total [OF table_shapes(3), of ltv] ltv_table_total [OF table_shapes(4), of ltv]
    by (cases "occupancy = ''Investment Property''"; cases "occupancy = ''Second Home''") auto
  obtain h where h: "(if loan_amount > CONFORMING_LIMIT_2025
        then dict_get PURCHASE_HIGH_BALANCE_FIXED ?lb
        else Inr 0) = Inr h"
    using ltv_table_total [OF table_shapes(5), of ltv]
    by (cases "loan_amount > CONFORMING_LIMIT_2025") auto
  have "calculate_conventional_llpa credit_score ltv loan_amount loan_purpose property_type
         occupancy
       = Inr [(''Credit Score / LTV'', c), (''Property Type'', p),
              (''Occupancy'', oc), (''High Balance'', h),
              (''Total LLPA'', c + p + oc + h)]"
    unfolding calculate_conventional_llpa_def Let_def c p oc h bindE_Inr
    by (simp add: py_sum_def)
  with c p oc h show ?thesis by blast
qed





lemma credit_score_ltv_agree:
  assumes "loan_purpose = ''Purchase'' \<or> loan_purpose = ''Rate/Term Refinance''"
  shows "get_credit_score_ltv_adjustment credit_score ltv loan_purpose
         = (if loan_purpose = ''Purchase''
            then matrix_get PURCHASE_CREDIT_SCORE_LTV (get_credit_score_bucket credit_score)
                   (get_ltv_bucket ltv)
            else matrix_get LIMITED_CASHOUT_CREDIT_SCORE_LTV
                   (get_credit_score_bucket credit_score) (get_ltv_bucket ltv))"
  using assms
  by (auto simp: get_credit_score_ltv_adjustment_def Let_def tables_agree buckets_agree)

lemma property_type_agree:
  assumes "loan_purpose = ''Purchase'' \<or> loan_purpose = ''Rate/Term Refinance''"
    and "property_type \<noteq> ''Manufactured Home''"
    and "(if property_type = ''Condo'' then dict_get PURCHASE_CONDO (get_ltv_bucket ltv)
          else if property_type \<in> set [''2-Unit'', ''3-Unit'', ''4-Unit'']
          then dict_get PURCHASE_2_TO_4_UNIT (get_ltv_bucket ltv)
          else Inr 0) = Inr p"
  shows "get_property_type_adjustment property_type ltv loan_purpose = p"
  using assms
  by (auto simp: get_property_type_adjustment_def Let_def tables_agree buckets_agree
      dict_get_or_eq split: if_splits)

lemma occupancy_agree:
  assumes "loan_purpose = ''Purchase'' \<or> loan_purpose = ''Rate/Term Refinance''"
    and "(if occupancy = ''Investment Property''
          then dict_get PURCHASE_INVESTMENT (get_ltv_bucket ltv)
          else if occupancy = ''Second Home''
          then dict_get PURCHASE_SECOND_HOME (get_ltv_bucket ltv)
          else Inr 0) = Inr oc"
  shows "get_occupancy_adjustment occupancy ltv loan_purpose = oc"
  using assms
  by (auto simp: get_occupancy_adjustment_def Let_def tables_agree buckets_agree
      dict_get_or_eq split: if_splits)

lemma high_balance_agree:
  assumes "(if loan_amount > CONFORMING_LIMIT_2025
            then dict_get PURCHASE_HIGH_BALANCE_FIXED (get_ltv_bucket ltv)
            else Inr 0) = Inr h"
  shows "get_high_balance_adjustment loan_amount ltv False = h"
  using assms
  by (auto simp: get_high_balance_adjustment_def Let_def tables_agree buckets_agree
      dict_get_or_eq split: if_splits)

lemma subordinate_none:
  "get_subordinate_financing_adjustment ltv (case cltv of None \<Rightarrow> ltv | Some c \<Rightarrow> c) = 0"
  if "cltv = None \<or> cltv = Some ltv"
  using that by (auto simp: get_subordinate_financing_adjustment_def)

text \<open>
  C10: for loan purpose Purchase or Rate/Term Refinance, a property type among Single
  Family, Condo and 2- to 4-Unit, a fixed-rate loan, \<open>cltv\<close> equal to \<open>ltv\<close> (or absent) and
  no waiver, \<open>calculate_conventional_llpa\<close> and \<open>calculate_total_llpa\<close> return the same
  Total LLPA. On every input \<open>calculate_conventional_llpa\<close> returns just the four
  adjustments and their total (no subordinate-financing or waiver entry), its high-balance
  adjustment comes from the fixed-rate table, every purpose other than Purchase is priced
  with the limited cash-out matrix (Cash-Out Refinance gives the same result as Rate/Term
  Refinance), and a manufactured home gets the property adjustment 0.
\<close>

theorem llpa_engines_agree:
  "((loan_purpose = ''Purchase'' \<or> loan_purpose = ''Rate/Term Refinance'')
      \<and> property_type \<in> set [''Single Family'', ''Condo'', ''2-Unit'', ''3-Unit'', ''4-Unit'']
      \<and> (cltv = None \<or> cltv = Some ltv) \<longrightarrow>
      (\<exists>a b t. calculate_conventional_llpa credit_score ltv loan_amount loan_purpose
                 property_type occupancy = Inr a
         \<and> calculate_total_llpa credit_score ltv loan_amount loan_purpose property_type
             occupancy False cltv False False = Inr b
         \<and> dict_get a ''Total LLPA'' = Inr t
         \<and> dict_get b ''Total LLPA'' = Inr (PFloat t)))
   \<and> (\<exists>a. calculate_conventional_llpa credit_score ltv loan_amount loan_purpose
             property_type occupancy = Inr a
         \<and> map fst a = [''Credit Score / LTV'', ''Property Type'', ''Occupancy'',
                         ''High Balance'', ''Total LLPA'']
         \<and> dict_get a ''High Balance''
             = (if loan_amount > CONFORMING_LIMIT_2025
                then dict_get PURCHASE_HIGH_BALANCE_FIXED (get_ltv_bucket ltv) else Inr 0)
         \<and> (loan_purpose \<noteq> ''Purchase'' \<longrightarrow>
               dict_get a ''Credit Score / LTV''
                 = matrix_get LIMITED_CASHOUT_CREDIT_SCORE_LTV
                     (get_credit_score_bucket credit_score) (get_ltv_bucket ltv))
         \<and> (property_type = ''Manufactured Home'' \<longrightarrow> dict_get a ''Property Type'' = Inr 0))
   \<and> calculate_conventional_llpa credit_score ltv loan_amount ''Cash-Out Refinance''
        property_type occupancy
      = calculate_conventional_llpa credit_score ltv loan_amount ''Rate/Term Refinance''
        property_type occupancy"
proof -
  obtain c p oc h where
    c: "(if loan_purpose = ''Purchase''
      then matrix_get PURCHASE_CREDIT_SCORE_LTV (get_credit_score_bucket credit_score)
             (get_ltv_bucket ltv)
      else matrix_get LIMITED_CASHOUT_CREDIT_SCORE_LTV (get_credit_score_bucket credit_score)
             (get_ltv_bucket ltv)) = Inr c"
    and p: "(if property_type = ''Condo'' then dict_get PURCHASE_CONDO (get_ltv_bucket ltv)
        else if property_type \<in> set [''2-Unit'', ''3-Unit'', ''4-Unit'']
        then dict_get PURCHASE_2_TO_4_UNIT (get_ltv_bucket ltv)
        else Inr 0) = Inr p"
    and oc: "(if occupancy = ''Investment Property''
        then dict_get PURCHASE_INVESTMENT (get_ltv_bucket ltv)
        else if occupancy = ''Second Home''
        then dict_get PURCHASE_SECOND_HOME (get_ltv_bucket ltv)
        else Inr 0) = Inr oc"
    and h: "(if loan_amount > CONFORMING_LIMIT_2025
        then dict_get PURCHASE_HIGH_BALANCE_FIXED (get_ltv_bucket ltv)
        else Inr 0) = Inr h"
    and a: "calculate_conventional_llpa credit_score ltv loan_amount loan_purpose property_type
         occupancy
       = Inr [(''Credit Score / LTV'', c), (''Property Type'', p),
              (''Occupancy'', oc), (''High Balance'', h),
              (''Total LLPA'', c + p + oc + h)]"
    using calculate_conventional_llpa_value
      [of loan_purpose credit_score ltv property_type occupancy loan_amount]
    by blast
  have first: "\<exists>a b t. calculate_conventional_llpa credit_score ltv loan_amount loan_purpose
                 property_type occupancy = Inr a
         \<and> calculate_total_llpa credit_score ltv loan_amount loan_purpose property_type
             occupancy False cltv False False = Inr b
         \<and> dict_get a ''Total LLPA'' = Inr t
         \<and> dict_get b ''Total LLPA'' = Inr (PFloat t)"
    if cls: "(loan_purpose = ''Purchase'' \<or> loan_purpose = ''Rate/Term Refinance'')
      \<and> property_type \<in> set [''Single Family'', ''Condo'', ''2-Unit'', ''3-Unit'', ''4-Unit'']
      \<and> (cltv = None \<or> cltv = Some ltv)"
  proof -
    have lp: "loan_purpose = ''Purchase'' \<or> loan_purpose = ''Rate/Term Refinance''"
      and sub: "cltv = None \<or> cltv = Some ltv"
      using cls by simp_all
    have mh: "property_type \<noteq> ''Manufactured Home''"
      using cls by auto
    have "calculate_total_llpa credit_score ltv loan_amount loan_purpose property_type
             occupancy False cltv False False
          = Inr [(''Credit Score / LTV'', PFloat c), (''Property Type'', PFloat p),
                 (''Occupancy'', PFloat oc), (''High Balance'', PFloat h),
                 (''Subordinate Financing'', PFloat 0),
                 (''Total LLPA'', PFloat (c + p + oc + h + 0)),
                 (''LLPA Waiver Applied'', PBool False)]"
      unfolding calculate_total_llpa_def Let_def credit_score_ltv_agree [OF lp] c bindE_Inr
        property_type_agree [OF lp mh p] occupancy_agree [OF lp oc] high_balance_agree [OF h]
        subordinate_none [OF sub]
      by (simp add: py_sum_def)
    then show ?thesis
      unfolding a by (simp add: dict_get_def)
  qed
  have second: "\<exists>a. calculate_conventional_llpa credit_score ltv loan_amount loan_purpose
             property_type occupancy = Inr a
         \<and> map fst a = [''Credit Score / LTV'', ''Property Type'', ''Occupancy'',
                         ''High Balance'', ''Total LLPA'']
         \<and> dict_get a ''High Balance''
             = (if loan_amount > CONFORMING_LIMIT_2025
                then dict_get PURCHASE_HIGH_BALANCE_FIXED (get_ltv_bucket ltv) else Inr 0)
         \<and> (loan_purpose \<noteq> ''Purchase'' \<longrightarrow>
               dict_get a ''Credit Score / LTV''
                 = matrix_get LIMITED_CASHOUT_CREDIT_SCORE_LTV
                     (get_credit_score_bucket credit_score) (get_ltv_bucket ltv))
         \<and> (property_type = ''Manufactured Home'' \<longrightarrow> dict_get a ''Property Type'' = Inr 0)"
    unfolding a h using c p by (auto simp: dict_get_def)
  have third: "calculate_conventional_llpa credit_score ltv loan_amount ''Cash-Out Refinance''
        property_type occupancy
      = calculate_conventional_llpa credit_score ltv loan_amount ''Rate/Term Refinance''
        property_type occupancy"
    by (simp add: calculate_conventional_llpa_def)
  show ?thesis
    using first second third by blast
qed


lemma conventional_example_high_balance:
  "calculate_conventional_llpa 720 80 900000 ''Purchase'' ''Condo'' ''Second Home''
   = Inr [(''Credit Score / LTV'', 1.250), (''Property Type'', 0.750), (''Occupancy'', 3.375),
          (''High Balance'', 1.000), (''Total LLPA'', 6.375)]"
  by code_simp

theorem llpa_engines_agree_witness:
  "\<not> isl (calculate_conventional_llpa 720 80 900000 ''Purchase'' ''Condo'' ''Second Home'')
   \<and> \<not> isl (calculate_total_llpa 720 80 900000 ''Purchase'' ''Condo'' ''Second Home''
             False None False False)
   \<and> dict_get (projr (calculate_conventional_llpa 720 80 900000 ''Purchase'' ''Condo''
             ''Second Home'')) ''Total LLPA'' = Inr 6.375
   \<and> dict_get (projr (calculate_total_llpa 720 80 900000 ''Purchase'' ''Condo''
             ''Second Home'' False None False False)) ''Total LLPA'' = Inr (PFloat 6.375)"
proof -
  have "(''Purchase'' = ''Purchase'' \<or> ''Purchase'' = ''Rate/Term Refinance'')
      \<and> ''Condo'' \<in> set [''Single Family'', ''Condo'', ''2-Unit'', ''3-Unit'', ''4-Unit'']
      \<and> ((None :: real option) = None \<or> None = Some (80::real))"
    by simp
  then obtain a b t where
    "calculate_conventional_llpa 720 80 900000 ''Purchase'' ''Condo'' ''Second Home'' = Inr a"
    "calculate_total_llpa 720 80 900000 ''Purchase'' ''Condo'' ''Second Home''
       False None False False = Inr b"
    "dict_get a ''Total LLPA'' = Inr t" "dict_get b ''Total LLPA'' = Inr (PFloat t)"
    using llpa_engines_agree [of "''Purchase''" "''Condo''" None 80 720 900000 "''Second Home''"]
    by blast
  moreover from this have "a = [(''Credit Score / LTV'', 1.250), (''Property Type'', 0.750),
      (''Occupancy'', 3.375), (''High Balance'', 1.000), (''Total LLPA'', 6.375)]"
    unfolding conventional_example_high_balance by simp
  moreover from calculation have "t = 6.375"
    by (simp add: dict_get_def)
  ultimately show ?thesis
    by simp
qed

section \<open>Level payments and the zero-rate loan\<close>



















section \<open>The mortality weights of the ENPV\<close>









section \<open>Properties of the readiness check\<close>

lemma is_ready_to_refinance_missing:
  "trigger_rate = None \<or> available_rate = None \<Longrightarrow>
   is_ready_to_refinance trigger_rate available_rate =
     \<lparr> is_ready = False, difference = None, difference_bps = None,
       message = ''Missing rate data'' \<rparr>"
  by (auto simp: is_ready_to_refinance_def split: option.splits)

lemma is_ready_to_refinance_present:
  "is_ready_to_refinance (Some t) (Some a) =
     (if num_greater (num_sub t a) (py 0) then
        \<lparr> is_ready = True, difference = Some (num_sub t a),
          difference_bps = Some (num_mul (num_sub t a) (py 10000)),
          message = ''Ready to refinance! Available rate is ''
                    @ format_0f (val (num_mul (num_sub t a) (py 10000)))
                    @ '' bps below trigger.'' \<rparr>
      else
        \<lparr> is_ready = False, difference = Some (num_sub t a),
          difference_bps = Some (num_mul (num_sub t a) (py 10000)),
          message = ''Not ready. Need rates to drop ''
                    @ format_0f (val (num_neg (num_mul (num_sub t a) (py 10000))))
                    @ '' more bps.'' \<rparr>)"
  by (simp add: is_ready_to_refinance_def Let_def)


text \<open>
  C7: \<open>is_ready_to_refinance\<close> answers \<open>is_ready = True\<close> exactly when both rates are
  present and \<open>trigger_rate - available_rate > 0\<close>; for finite rates that is
  \<open>available_rate < trigger_rate\<close>, so a difference of exactly 0 is not ready. When a rate
  is missing the message is \<open>Missing rate data\<close>, which no result computed from two
  present rates ever carries.
\<close>

theorem is_ready_iff_positive_difference:
  "(is_ready (is_ready_to_refinance trigger_rate available_rate) \<longleftrightarrow>
      (\<exists>t a. trigger_rate = Some t \<and> available_rate = Some a
             \<and> num_greater (num_sub t a) (py 0)))
   \<and> (\<forall>t a x y. trigger_rate = Some t \<and> available_rate = Some a
          \<and> to_real (val t) = Some x \<and> to_real (val a) = Some y \<longrightarrow>
        is_ready (is_ready_to_refinance trigger_rate available_rate) = (y < x))
   \<and> (trigger_rate = None \<or> available_rate = None \<longrightarrow>
        message (is_ready_to_refinance trigger_rate available_rate) = ''Missing rate data'')
   \<and> (\<forall>t a. message (is_ready_to_refinance (Some t) (Some a)) \<noteq> ''Missing rate data'')"
proof (intro conjI allI impI)
  show "is_ready (is_ready_to_refinance trigger_rate available_rate) \<longleftrightarrow>
      (\<exists>t a. trigger_rate = Some t \<and> available_rate = Some a
             \<and> num_greater (num_sub t a) (py 0))"
    by (cases trigger_rate; cases available_rate)
       (simp_all add: is_ready_to_refinance_missing is_ready_to_refinance_present)
next
  fix t a x y
  assume h: "trigger_rate = Some t \<and> available_rate = Some a
          \<and> to_real (val t) = Some x \<and> to_real (val a) = Some y"
  then have "num_greater (num_sub t a) (py 0) = (y < x)"
    by (simp add: num_greater_def num_sub_def py_def finite_sub_positive)
  with h show "is_ready (is_ready_to_refinance trigger_rate available_rate) = (y < x)"
    by (simp add: is_ready_to_refinance_present)
next
  assume "trigger_rate = None \<or> available_rate = None"
  then show "message (is_ready_to_refinance trigger_rate available_rate) = ''Missing rate data''"
    by (simp add: is_ready_to_refinance_missing)
next
  fix t a
  show "message (is_ready_to_refinance (Some t) (Some a)) \<noteq> ''Missing rate data''"
    by (simp add: is_ready_to_refinance_present)
qed

theorem is_ready_iff_positive_difference_witness:
  "is_ready (is_ready_to_refinance (Some (py (6 / 100))) (Some (py (55 / 1000))))
   \<and> \<not> is_ready (is_ready_to_refinance (Some (py (6 / 100))) (Some (py (6 / 100))))
   \<and> message (is_ready_to_refinance None (Some (py (55 / 1000)))) = ''Missing rate data''
   \<and> message (is_ready_to_refinance (Some (py (6 / 100))) (Some (py (6 / 100))))
       \<noteq> ''Missing rate data''"
  using is_ready_iff_positive_difference [of "Some (py (6 / 100))" "Some (py (55 / 1000))"]
        is_ready_iff_positive_difference [of "Some (py (6 / 100))" "Some (py (6 / 100))"]
        is_ready_iff_positive_difference [of None "Some (py (55 / 1000))"]
  by (simp add: py_def num_greater_def num_sub_def fl_sub_def)


end
